theory Spec2Isabelle
  imports Main "HOL-Library.Sublist" "HOL-Library.AList"
begin

section \<open>Device targeting\<close>

text \<open>
  \<^verbatim>\<open>shouldProcessMessage\<close> of useSyncQueriesExternal.ts: strict equality of
  two strings, or the broadcast sentinel.
\<close>

definition shouldProcessMessage :: "string \<Rightarrow> string \<Rightarrow> bool" where
  "shouldProcessMessage targetDeviceId currentDeviceId =
     (targetDeviceId = currentDeviceId \<or> targetDeviceId = ''All'')"

section \<open>JavaScript values the command code handles\<close>

text \<open>
  A thrown value is an instance of \<^verbatim>\<open>Error\<close> (its name and its message); or a value
  that converts to a string, kept as that text; or a Symbol (its description), which
  \<^verbatim>\<open>String()\<close> accepts and a template literal refuses with a TypeError; or an object
  whose conversion to a primitive throws (it carries what is thrown then: a TypeError for
  an object with no prototype).
\<close>

datatype js_thrown =
    ErrorInstance string string
  | NonError string
  | SymbolValue string
  | Unconvertible js_thrown

text \<open>The TypeErrors of the two failing conversions (the wording is the engine's).\<close>

definition symbol_type_error :: js_thrown where
  "symbol_type_error = ErrorInstance ''TypeError'' ''Cannot convert a Symbol value to a string''"

definition primitive_type_error :: js_thrown where
  "primitive_type_error = ErrorInstance ''TypeError'' ''Cannot convert object to primitive value''"

text \<open>\<^verbatim>\<open>Object.create(null)\<close>\<close>

definition null_prototype_object :: js_thrown where
  "null_prototype_object = Unconvertible primitive_type_error"

text \<open>
  \<^verbatim>\<open>error instanceof Error ? error.message : String(error)\<close>: the text, or what the
  conversion throws.
\<close>

fun error_text :: "js_thrown \<Rightarrow> js_thrown + string" where
  "error_text (ErrorInstance nm msg) = Inr msg"
| "error_text (NonError s) = Inr s"
| "error_text (SymbolValue d) = Inr (''Symbol('' @ d @ '')'')"
| "error_text (Unconvertible t) = Inl t"

text \<open>
  The template literal \<^verbatim>\<open>${error}\<close>: \<^verbatim>\<open>Error.prototype.toString\<close> for an Error;
  the text, or what the conversion throws.
\<close>

fun template_text :: "js_thrown \<Rightarrow> js_thrown + string" where
  "template_text (ErrorInstance nm msg) =
     Inr (if nm = [] then msg else if msg = [] then nm else nm @ '': '' @ msg)"
| "template_text (NonError s) = Inr s"
| "template_text (SymbolValue d) = Inl symbol_type_error"
| "template_text (Unconvertible t) = Inl t"

text \<open>A value both conversions accept.\<close>

definition converts :: "js_thrown \<Rightarrow> bool" where
  "converts e = (\<not> isl (error_text e) \<and> \<not> isl (template_text e))"

text \<open>
  How an async function or a handler ends: it returns (its promise fulfils), it throws
  (its promise rejects), or it never comes back (its promise never settles).
\<close>

datatype outcome = Returns | Throws js_thrown | Hangs

text \<open>
  What a native function does when called: it gives a value back, which, when awaited,
  fulfils (as every value that is not a promise does), rejects or never settles; or it
  throws at once; or it never returns.
\<close>

datatype promise_state = Fulfils | Rejects js_thrown | NeverSettles

datatype native_result = Gives promise_state | ThrowsNow js_thrown | NeverReturns

text \<open>What a command implementation does that can be observed from outside.\<close>

datatype event =
    NativeCall string
  | NativeCallArg string bool
  | ConsoleLog string
  | ConsoleWarn string js_thrown

section \<open>The runtime the default implementations probe\<close>

text \<open>
  Every optional native function is \<open>None\<close> when the property is missing (falsy),
  and otherwise carries what calling it does.
\<close>

record expo_global =
  expo_reload :: "native_result option"
  expo_openDevMenu :: "native_result option"

record dev_settings =
  ds_reload :: "native_result option"
  ds_toggleElementInspector :: "native_result option"
  ds_togglePerformanceMonitor :: "native_result option"
  ds_setIsDebuggingRemotely :: "native_result option"
  ds_show :: "native_result option"

record dev_menu =
  dm_reload :: "native_result option"
  dm_toggleElementInspector :: "native_result option"
  dm_togglePerformanceMonitor :: "native_result option"
  dm_toggleRemoteDebugging :: "native_result option"
  dm_show :: "native_result option"

record image_loader =
  il_clearCache :: "native_result option"

record rn_screenshot =
  rs_takeScreenshot :: "native_result option"

record native_modules =
  nm_DevMenu :: "dev_menu option"
  nm_ImageLoader :: "image_loader option"
  nm_RNScreenshot :: "rn_screenshot option"

record react_native =
  rn_DevSettings :: "dev_settings option"
  rn_NativeModules :: "native_modules option"

record async_storage_api =
  as_clear :: "native_result option"

record async_storage_module =
  as_default :: "async_storage_api option"

text \<open>
  \<^verbatim>\<open>global.require\<close>: for each of the two module names the code asks for, the
  module, or \<open>None\<close> when the call throws.
\<close>

record require_fn =
  req_react_native :: "react_native option"
  req_async_storage :: "async_storage_module option"

record js_global =
  global_defined :: bool
  global_expo :: "expo_global option"
  global_require :: "require_fn option"
  global_devtools_hook :: bool

text \<open>\<^verbatim>\<open>typeof global !== 'undefined' && global.__expo && global.__expo.f\<close>\<close>

definition expo_method :: "js_global \<Rightarrow> (expo_global \<Rightarrow> native_result option) \<Rightarrow> native_result option" where
  "expo_method g sel =
     (if global_defined g then (case global_expo g of None \<Rightarrow> None | Some e \<Rightarrow> sel e) else None)"

text \<open>
  \<^verbatim>\<open>typeof global !== 'undefined' && global.require\<close>, then
  \<^verbatim>\<open>global.require('react-native')\<close> inside the inner \<^verbatim>\<open>try\<close>.
\<close>

definition require_react_native :: "js_global \<Rightarrow> react_native option" where
  "require_react_native g =
     (if global_defined g
      then (case global_require g of None \<Rightarrow> None | Some r \<Rightarrow> req_react_native r)
      else None)"

text \<open>\<^verbatim>\<open>DevSettings && DevSettings.f\<close> after \<^verbatim>\<open>require('react-native').DevSettings\<close>\<close>

definition devSettings_method ::
  "js_global \<Rightarrow> (dev_settings \<Rightarrow> native_result option) \<Rightarrow> native_result option" where
  "devSettings_method g sel =
     (case require_react_native g of
        None \<Rightarrow> None
      | Some rn \<Rightarrow> (case rn_DevSettings rn of None \<Rightarrow> None | Some ds \<Rightarrow> sel ds))"

text \<open>
  \<^verbatim>\<open>const { M } = require('react-native').NativeModules; M && M.f\<close>: a missing
  \<^verbatim>\<open>NativeModules\<close> makes the destructuring throw inside the inner \<^verbatim>\<open>try\<close>,
  which the empty \<^verbatim>\<open>catch\<close> turns into falling through, as a missing module does.
\<close>

definition nativeModules_of :: "js_global \<Rightarrow> native_modules option" where
  "nativeModules_of g =
     (case require_react_native g of None \<Rightarrow> None | Some rn \<Rightarrow> rn_NativeModules rn)"

definition devMenu_method :: "js_global \<Rightarrow> (dev_menu \<Rightarrow> native_result option) \<Rightarrow> native_result option" where
  "devMenu_method g sel =
     (case nativeModules_of g of
        None \<Rightarrow> None
      | Some nm \<Rightarrow> (case nm_DevMenu nm of None \<Rightarrow> None | Some dm \<Rightarrow> sel dm))"

definition imageLoader_clearCache :: "js_global \<Rightarrow> native_result option" where
  "imageLoader_clearCache g =
     (case nativeModules_of g of
        None \<Rightarrow> None
      | Some nm \<Rightarrow> (case nm_ImageLoader nm of None \<Rightarrow> None | Some il \<Rightarrow> il_clearCache il))"

definition rnScreenshot_takeScreenshot :: "js_global \<Rightarrow> native_result option" where
  "rnScreenshot_takeScreenshot g =
     (case nativeModules_of g of
        None \<Rightarrow> None
      | Some nm \<Rightarrow> (case nm_RNScreenshot nm of None \<Rightarrow> None | Some rs \<Rightarrow> rs_takeScreenshot rs))"

definition asyncStorage_clear :: "js_global \<Rightarrow> native_result option" where
  "asyncStorage_clear g =
     (if global_defined g
      then (case global_require g of
              None \<Rightarrow> None
            | Some r \<Rightarrow>
               (case req_async_storage r of
                  None \<Rightarrow> None
                | Some m \<Rightarrow> (case as_default m of None \<Rightarrow> None | Some a \<Rightarrow> as_clear a)))
      else None)"

section \<open>Statements of an implementation body\<close>

datatype flow = Fallthrough | Returned | Raised js_thrown | Stuck

type_synonym block = "event list \<times> flow"

text \<open>
  \<^verbatim>\<open>if (f) { f(); after; return; }\<close> for an optional native function that is not
  awaited: what the call gives back is dropped, so the body returns whatever that
  promise does later.
\<close>

fun call_and_return :: "native_result option \<Rightarrow> event \<Rightarrow> event list \<Rightarrow> block" where
  "call_and_return None ev after = ([], Fallthrough)"
| "call_and_return (Some (Gives p)) ev after = (ev # after, Returned)"
| "call_and_return (Some (ThrowsNow e)) ev after = ([ev], Raised e)"
| "call_and_return (Some NeverReturns) ev after = ([ev], Stuck)"

text \<open>\<^verbatim>\<open>if (f) { await f(); after; return; }\<close>\<close>

fun await_and_return :: "native_result option \<Rightarrow> event \<Rightarrow> event list \<Rightarrow> block" where
  "await_and_return None ev after = ([], Fallthrough)"
| "await_and_return (Some (Gives Fulfils)) ev after = (ev # after, Returned)"
| "await_and_return (Some (Gives (Rejects e))) ev after = ([ev], Raised e)"
| "await_and_return (Some (Gives NeverSettles)) ev after = ([ev], Stuck)"
| "await_and_return (Some (ThrowsNow e)) ev after = ([ev], Raised e)"
| "await_and_return (Some NeverReturns) ev after = ([ev], Stuck)"

text \<open>\<^verbatim>\<open>try { b } catch (e) { }\<close>\<close>

fun try_ignore :: "block \<Rightarrow> block" where
  "try_ignore (evs, Raised e) = (evs, Fallthrough)"
| "try_ignore b = b"

text \<open>One statement after the other.\<close>

fun seq :: "block \<Rightarrow> block \<Rightarrow> block" where
  "seq (evs, Fallthrough) b = (evs @ fst b, snd b)"
| "seq a b = a"

type_synonym impl_result = "event list \<times> outcome"

text \<open>
  \<^verbatim>\<open>async () => { try { b } catch (error) { console.warn(msg, error); } }\<close>: the
  promise of the async function.
\<close>

fun async_try_warn :: "string \<Rightarrow> block \<Rightarrow> impl_result" where
  "async_try_warn msg (evs, Raised e) = (evs @ [ConsoleWarn msg e], Returns)"
| "async_try_warn msg (evs, Stuck) = (evs, Hangs)"
| "async_try_warn msg (evs, Returned) = (evs, Returns)"
| "async_try_warn msg (evs, Fallthrough) = (evs, Returns)"

definition console_log :: "string \<Rightarrow> block" where
  "console_log s = ([ConsoleLog s], Fallthrough)"

type_synonym impl = "js_global \<Rightarrow> impl_result"

section \<open>The default implementations (executeExpoCommand.ts)\<close>

definition default_executeReload :: impl where
  "default_executeReload g =
     async_try_warn ''Error executing reload command:''
       (seq (call_and_return (expo_method g expo_reload) (NativeCall ''global.__expo.reload'') [])
       (seq (try_ignore
              (call_and_return (devSettings_method g ds_reload) (NativeCall ''DevSettings.reload'') []))
       (seq (try_ignore
              (call_and_return (devMenu_method g dm_reload) (NativeCall ''DevMenu.reload'') []))
            (console_log ''Reload command received but no implementation found. Override with setReloadImplementation() for custom behavior.''))))"

definition default_executeToggleInspector :: impl where
  "default_executeToggleInspector g =
     async_try_warn ''Error executing toggle inspector command:''
       (seq (try_ignore
              (call_and_return (devSettings_method g ds_toggleElementInspector)
                 (NativeCall ''DevSettings.toggleElementInspector'') []))
       (seq (try_ignore
              (call_and_return (devMenu_method g dm_toggleElementInspector)
                 (NativeCall ''DevMenu.toggleElementInspector'') []))
            (console_log ''Toggle inspector command received but no implementation found. Override with setToggleInspectorImplementation() for custom behavior.'')))"

definition default_executeTogglePerformanceMonitor :: impl where
  "default_executeTogglePerformanceMonitor g =
     async_try_warn ''Error executing toggle performance monitor command:''
       (seq (try_ignore
              (call_and_return (devSettings_method g ds_togglePerformanceMonitor)
                 (NativeCall ''DevSettings.togglePerformanceMonitor'') []))
       (seq (try_ignore
              (call_and_return (devMenu_method g dm_togglePerformanceMonitor)
                 (NativeCall ''DevMenu.togglePerformanceMonitor'') []))
            (console_log ''Toggle performance monitor command received but no implementation found. Override with setTogglePerformanceMonitorImplementation() for custom behavior.'')))"

definition default_executeToggleElementInspector :: impl where
  "default_executeToggleElementInspector g =
     async_try_warn ''Error executing toggle element inspector command:''
       (seq (try_ignore
              (call_and_return (devSettings_method g ds_toggleElementInspector)
                 (NativeCall ''DevSettings.toggleElementInspector'') []))
       (seq (try_ignore
              (call_and_return (devMenu_method g dm_toggleElementInspector)
                 (NativeCall ''DevMenu.toggleElementInspector'') []))
            (console_log ''Toggle element inspector command received but no implementation found. Override with setToggleElementInspectorImplementation() for custom behavior.'')))"

definition default_executeClearCache :: impl where
  "default_executeClearCache g =
     async_try_warn ''Error executing clear cache command:''
       (seq (try_ignore
              (await_and_return (asyncStorage_clear g)
                 (NativeCall ''AsyncStorage.clear'') [ConsoleLog ''AsyncStorage cache cleared'']))
       (seq (try_ignore
              (await_and_return (imageLoader_clearCache g)
                 (NativeCall ''ImageLoader.clearCache'') [ConsoleLog ''Image cache cleared'']))
            (console_log ''Clear cache command received but no implementation found. Override with setClearCacheImplementation() for custom behavior.'')))"

definition default_executeToggleRemoteDebugging :: impl where
  "default_executeToggleRemoteDebugging g =
     async_try_warn ''Error executing toggle remote debugging command:''
       (seq (try_ignore
              (call_and_return (devSettings_method g ds_setIsDebuggingRemotely)
                 (NativeCallArg ''DevSettings.setIsDebuggingRemotely'' (\<not> global_devtools_hook g)) []))
       (seq (try_ignore
              (call_and_return (devMenu_method g dm_toggleRemoteDebugging)
                 (NativeCall ''DevMenu.toggleRemoteDebugging'') []))
            (console_log ''Toggle remote debugging command received but no implementation found. Override with setToggleRemoteDebuggingImplementation() for custom behavior.'')))"

definition default_executeOpenDevMenu :: impl where
  "default_executeOpenDevMenu g =
     async_try_warn ''Error executing open dev menu command:''
       (seq (call_and_return (expo_method g expo_openDevMenu) (NativeCall ''global.__expo.openDevMenu'') [])
       (seq (try_ignore
              (call_and_return (devMenu_method g dm_show) (NativeCall ''DevMenu.show'') []))
            (console_log ''Open dev menu command received but no implementation found. Override with setOpenDevMenuImplementation() for custom behavior.'')))"

definition default_executeTakeScreenshot :: impl where
  "default_executeTakeScreenshot g =
     async_try_warn ''Error executing take screenshot command:''
       (seq (try_ignore
              (await_and_return (rnScreenshot_takeScreenshot g)
                 (NativeCall ''RNScreenshot.takeScreenshot'') []))
            (console_log ''Take screenshot command received but no implementation found. Override with setTakeScreenshotImplementation() for custom behavior.''))"

text \<open>
  \<^verbatim>\<open>if (DevSettings && DevSettings.reload) { if (DevSettings.show) { ... return; } }\<close>:
  the dev-settings step of shake-device asks for \<^verbatim>\<open>reload\<close> and calls \<^verbatim>\<open>show\<close>.
\<close>

definition devSettings_reload_then_show :: "js_global \<Rightarrow> native_result option" where
  "devSettings_reload_then_show g =
     (case devSettings_method g ds_reload of
        None \<Rightarrow> None
      | Some r \<Rightarrow> devSettings_method g ds_show)"

definition default_executeShakeDevice :: impl where
  "default_executeShakeDevice g =
     async_try_warn ''Error executing shake device command:''
       (seq (try_ignore
              (call_and_return (devSettings_reload_then_show g) (NativeCall ''DevSettings.show'') []))
       (seq (try_ignore
              (call_and_return (devMenu_method g dm_show) (NativeCall ''DevMenu.show'') []))
            (console_log ''Shake device command received but no implementation found. Override with setShakeDeviceImplementation() for custom behavior.'')))"

section \<open>The overridable slots\<close>

text \<open>
  The nine module-level \<^verbatim>\<open>export let execute...\<close> variables: one current
  implementation per command.
\<close>

record implementations =
  executeReload :: impl
  executeToggleInspector :: impl
  executeTogglePerformanceMonitor :: impl
  executeToggleElementInspector :: impl
  executeClearCache :: impl
  executeToggleRemoteDebugging :: impl
  executeOpenDevMenu :: impl
  executeTakeScreenshot :: impl
  executeShakeDevice :: impl

definition default_implementations :: implementations where
  "default_implementations =
     \<lparr> executeReload = default_executeReload,
       executeToggleInspector = default_executeToggleInspector,
       executeTogglePerformanceMonitor = default_executeTogglePerformanceMonitor,
       executeToggleElementInspector = default_executeToggleElementInspector,
       executeClearCache = default_executeClearCache,
       executeToggleRemoteDebugging = default_executeToggleRemoteDebugging,
       executeOpenDevMenu = default_executeOpenDevMenu,
       executeTakeScreenshot = default_executeTakeScreenshot,
       executeShakeDevice = default_executeShakeDevice \<rparr>"

text \<open>The single setters.\<close>

definition setReloadImplementation :: "impl \<Rightarrow> implementations \<Rightarrow> implementations" where
  "setReloadImplementation f t = t\<lparr>executeReload := f\<rparr>"

definition setToggleInspectorImplementation :: "impl \<Rightarrow> implementations \<Rightarrow> implementations" where
  "setToggleInspectorImplementation f t = t\<lparr>executeToggleInspector := f\<rparr>"

definition setTogglePerformanceMonitorImplementation ::
  "impl \<Rightarrow> implementations \<Rightarrow> implementations" where
  "setTogglePerformanceMonitorImplementation f t = t\<lparr>executeTogglePerformanceMonitor := f\<rparr>"

definition setToggleElementInspectorImplementation ::
  "impl \<Rightarrow> implementations \<Rightarrow> implementations" where
  "setToggleElementInspectorImplementation f t = t\<lparr>executeToggleElementInspector := f\<rparr>"

definition setClearCacheImplementation :: "impl \<Rightarrow> implementations \<Rightarrow> implementations" where
  "setClearCacheImplementation f t = t\<lparr>executeClearCache := f\<rparr>"

definition setToggleRemoteDebuggingImplementation ::
  "impl \<Rightarrow> implementations \<Rightarrow> implementations" where
  "setToggleRemoteDebuggingImplementation f t = t\<lparr>executeToggleRemoteDebugging := f\<rparr>"

definition setOpenDevMenuImplementation :: "impl \<Rightarrow> implementations \<Rightarrow> implementations" where
  "setOpenDevMenuImplementation f t = t\<lparr>executeOpenDevMenu := f\<rparr>"

definition setTakeScreenshotImplementation :: "impl \<Rightarrow> implementations \<Rightarrow> implementations" where
  "setTakeScreenshotImplementation f t = t\<lparr>executeTakeScreenshot := f\<rparr>"

definition setShakeDeviceImplementation :: "impl \<Rightarrow> implementations \<Rightarrow> implementations" where
  "setShakeDeviceImplementation f t = t\<lparr>executeShakeDevice := f\<rparr>"

text \<open>
  The argument of \<^verbatim>\<open>setExpoCommandImplementations\<close>: each key optional. A key
  that is absent (or holds a falsy value) is \<open>None\<close>.
\<close>

record implementation_map =
  reload :: "impl option"
  toggleInspector :: "impl option"
  togglePerformanceMonitor :: "impl option"
  toggleElementInspector :: "impl option"
  clearCache :: "impl option"
  toggleRemoteDebugging :: "impl option"
  openDevMenu :: "impl option"
  takeScreenshot :: "impl option"
  shakeDevice :: "impl option"

text \<open>\<^verbatim>\<open>if (implementations.k) { slot = implementations.k; }\<close>\<close>

definition assign_if :: "impl option \<Rightarrow> impl \<Rightarrow> impl" where
  "assign_if supplied current = (case supplied of None \<Rightarrow> current | Some f \<Rightarrow> f)"

definition setExpoCommandImplementations ::
  "implementation_map \<Rightarrow> implementations \<Rightarrow> implementations" where
  "setExpoCommandImplementations m t =
     t\<lparr> executeReload := assign_if (reload m) (executeReload t),
        executeToggleInspector := assign_if (toggleInspector m) (executeToggleInspector t),
        executeTogglePerformanceMonitor :=
          assign_if (togglePerformanceMonitor m) (executeTogglePerformanceMonitor t),
        executeToggleElementInspector :=
          assign_if (toggleElementInspector m) (executeToggleElementInspector t),
        executeClearCache := assign_if (clearCache m) (executeClearCache t),
        executeToggleRemoteDebugging :=
          assign_if (toggleRemoteDebugging m) (executeToggleRemoteDebugging t),
        executeOpenDevMenu := assign_if (openDevMenu m) (executeOpenDevMenu t),
        executeTakeScreenshot := assign_if (takeScreenshot m) (executeTakeScreenshot t),
        executeShakeDevice := assign_if (shakeDevice m) (executeShakeDevice t) \<rparr>"

section \<open>Queries as the cache library holds them\<close>

text \<open>
  The cache is the external data-fetching library's (\<^verbatim>\<open>@tanstack/react-query\<close>). Its
  objects are modelled with the fields and the operations the handlers use. Opaque
  payloads (query data) are strings; \<open>None\<close> is \<^verbatim>\<open>undefined\<close>.
\<close>

datatype query_status = QueryPending | QueryError | QuerySuccess

datatype fetch_status = Fetching | Paused | Idle

text \<open>
  A query function is the application's own (named) or the promise that never resolves,
  which ACTION-TRIGGER-LOADING installs.
\<close>

datatype query_fn = AppQueryFn string | NeverResolves

record query_options =
  opt_queryFn :: query_fn
  opt_gcTime :: int

text \<open>\<^verbatim>\<open>fetchMeta\<close>: whatever the library keeps there, and the stashed options.\<close>

record fetch_meta =
  fm_fetchMore :: "string option"
  fm_previousQueryOptions :: "query_options option"

record query_state =
  qs_status :: query_status
  qs_data :: "string option"
  qs_error :: "js_thrown option"
  qs_fetchStatus :: fetch_status
  qs_fetchMeta :: "fetch_meta option"
  qs_dataUpdatedAt :: nat

text \<open>A call \<^verbatim>\<open>log(message, enableLogs, level)\<close> of the logger.\<close>

datatype log_level = LevelLog | LevelWarn | LevelError

datatype log_call = LogCall string bool log_level

text \<open>
  The retryer of a fetch: the options it runs, whether it was cancelled, and the logger
  calls attached to its promise with \<^verbatim>\<open>promise.catch\<close>.
\<close>

record retryer =
  rt_options :: query_options
  rt_cancelled :: bool
  rt_catch :: "log_call list"

text \<open>
  A query: its hash and key, its current options and state, the retryer of its latest
  fetch (the library keeps it when it is cancelled), and the fetches that a later fetch
  replaced while they were still running.
\<close>

record query =
  q_queryHash :: string
  q_queryKey :: "string list"
  q_options :: query_options
  q_state :: query_state
  q_retryer :: "retryer option"
  q_orphans :: "query_options list"

text \<open>The fetches of a query that are still running, by their options.\<close>

definition running_fetches :: "query \<Rightarrow> query_options list" where
  "running_fetches q =
     (case q_retryer q of
        None \<Rightarrow> []
      | Some r \<Rightarrow> if rt_cancelled r then [] else [rt_options r]) @ q_orphans q"

section \<open>Messages\<close>

datatype command_status = StatusPending | StatusSuccess | StatusError

record expo_command =
  cmd_id :: string
  cmd_type :: string
  cmd_status :: command_status
  cmd_timestamp :: nat
  cmd_deviceId :: string
  cmd_result :: "string option"
  cmd_error :: "string option"

record dehydrated_query =
  dq_queryHash :: string
  dq_queryKey :: "string list"
  dq_state :: query_state

record dehydrated_state =
  dh_mutations :: "nat list"
  dh_queries :: "dehydrated_query list"

datatype async_storage_action_type = GET_ALL_KEYS | GET_ITEM | SET_ITEM | REMOVE_ITEM | CLEAR_ALL

record async_storage_action_message =
  asa_action :: async_storage_action_type
  asa_targetDeviceId :: string
  asa_key :: "string option"
  asa_value :: "string option"

text \<open>What the device emits on the socket, by payload shape.\<close>

datatype payload =
    SyncMessage dehydrated_state bool string
  | AsyncStorageSyncMessage "(string \<times> string) list" nat string
  | AsyncStorageActionReceived async_storage_action_message
  | RequestAsyncStorageReceived
  | ExpoCommandResultMessage expo_command string

type_synonym emission = "string \<times> payload"

section \<open>executeExpoCommand\<close>

text \<open>The \<^verbatim>\<open>switch (command.type)\<close>: the slot a command type resolves to.\<close>

definition dispatch :: "implementations \<Rightarrow> string \<Rightarrow> impl option" where
  "dispatch t ty =
     (if ty = ''reload'' then Some (executeReload t)
      else if ty = ''toggle-inspector'' then Some (executeToggleInspector t)
      else if ty = ''toggle-performance-monitor'' then Some (executeTogglePerformanceMonitor t)
      else if ty = ''toggle-element-inspector'' then Some (executeToggleElementInspector t)
      else if ty = ''clear-cache'' then Some (executeClearCache t)
      else if ty = ''toggle-remote-debugging'' then Some (executeToggleRemoteDebugging t)
      else if ty = ''open-dev-menu'' then Some (executeOpenDevMenu t)
      else if ty = ''take-screenshot'' then Some (executeTakeScreenshot t)
      else if ty = ''shake-device'' then Some (executeShakeDevice t)
      else None)"

text \<open>The body of the \<^verbatim>\<open>try\<close>: the awaited implementation, or the thrown Error.\<close>

definition run_command :: "implementations \<Rightarrow> js_global \<Rightarrow> string \<Rightarrow> impl_result" where
  "run_command t g ty =
     (case dispatch t ty of
        Some f \<Rightarrow> f g
      | None \<Rightarrow> ([], Throws (ErrorInstance ''Error'' (''Unknown command type: '' @ ty))))"

record exec_result =
  ex_emitted :: "emission list"
  ex_log :: "log_call list"
  ex_events :: "event list"
  ex_completion :: outcome

text \<open>
  \<^verbatim>\<open>executeExpoCommand\<close>. In the \<^verbatim>\<open>catch\<close> block the two conversions of the
  caught value are not guarded: when \<^verbatim>\<open>String(error)\<close> throws, nothing has been
  emitted yet; when the template literal of the last log throws, the result has been.
\<close>

definition executeExpoCommand ::
  "implementations \<Rightarrow> js_global \<Rightarrow> expo_command \<Rightarrow> string \<Rightarrow> bool \<Rightarrow> exec_result" where
  "executeExpoCommand t g command deviceId enableLogs =
     (let started = LogCall (''[ExpoCommand] Executing command: '' @ cmd_type command) enableLogs LevelLog;
          r = run_command t g (cmd_type command)
      in case snd r of
           Returns \<Rightarrow>
             \<lparr> ex_emitted = [(''expo-command-result'',
                  ExpoCommandResultMessage (command\<lparr>cmd_status := StatusSuccess\<rparr>) deviceId)],
               ex_log = [started,
                  LogCall (''[ExpoCommand] Command executed successfully: '' @ cmd_type command)
                    enableLogs LevelLog],
               ex_events = fst r,
               ex_completion = Returns \<rparr>
         | Throws e \<Rightarrow>
             (case error_text e of
                Inl t \<Rightarrow>
                  \<lparr> ex_emitted = [], ex_log = [started], ex_events = fst r,
                    ex_completion = Throws t \<rparr>
              | Inr txt \<Rightarrow>
                  (let emitted = [(''expo-command-result'',
                         ExpoCommandResultMessage
                           (command\<lparr>cmd_status := StatusError, cmd_error := Some txt\<rparr>) deviceId)];
                       failed = LogCall (''[ExpoCommand] Command execution failed: '' @ cmd_type command)
                                  enableLogs LevelError
                   in case template_text e of
                        Inl t \<Rightarrow>
                          \<lparr> ex_emitted = emitted, ex_log = [started, failed], ex_events = fst r,
                            ex_completion = Throws t \<rparr>
                      | Inr shown \<Rightarrow>
                          \<lparr> ex_emitted = emitted,
                            ex_log = [started, failed,
                               LogCall (''[ExpoCommand] Error: '' @ shown) enableLogs LevelError],
                            ex_events = fst r,
                            ex_completion = Returns \<rparr>))
         | Hangs \<Rightarrow>
             \<lparr> ex_emitted = [], ex_log = [started], ex_events = fst r, ex_completion = Hangs \<rparr>)"

text \<open>
  Overrides: one whose promise never settles, one that rejects with an Error, one that
  rejects with a Symbol, one that rejects with an object without prototype.
\<close>

definition never_settling_impl :: impl where
  "never_settling_impl g = ([], Hangs)"

definition rejecting_impl :: impl where
  "rejecting_impl g = ([], Throws (ErrorInstance ''Error'' ''boom''))"

definition symbol_rejecting_impl :: impl where
  "symbol_rejecting_impl g = ([], Throws (SymbolValue ''tag''))"

definition object_rejecting_impl :: impl where
  "object_rejecting_impl g = ([], Throws null_prototype_object)"

text \<open>A runtime with no \<^verbatim>\<open>__expo\<close> and no \<^verbatim>\<open>require\<close>.\<close>

definition bare_global :: js_global where
  "bare_global =
     \<lparr> global_defined = True, global_expo = None, global_require = None,
       global_devtools_hook = False \<rparr>"

definition reload_command :: expo_command where
  "reload_command =
     \<lparr> cmd_id = ''c-1'', cmd_type = ''reload'', cmd_status = StatusPending, cmd_timestamp = 0,
       cmd_deviceId = ''dev-A'', cmd_result = None, cmd_error = None \<rparr>"

section \<open>The nine command types\<close>

datatype expo_command_type =
    Reload | ToggleInspector | TogglePerformanceMonitor | ToggleElementInspector | ClearCache
  | ToggleRemoteDebugging | OpenDevMenu | TakeScreenshot | ShakeDevice

text \<open>The wire name of a command type (\<^verbatim>\<open>ExpoCommandType\<close>).\<close>

primrec type_name :: "expo_command_type \<Rightarrow> string" where
  "type_name Reload = ''reload''"
| "type_name ToggleInspector = ''toggle-inspector''"
| "type_name TogglePerformanceMonitor = ''toggle-performance-monitor''"
| "type_name ToggleElementInspector = ''toggle-element-inspector''"
| "type_name ClearCache = ''clear-cache''"
| "type_name ToggleRemoteDebugging = ''toggle-remote-debugging''"
| "type_name OpenDevMenu = ''open-dev-menu''"
| "type_name TakeScreenshot = ''take-screenshot''"
| "type_name ShakeDevice = ''shake-device''"

text \<open>The slot of a command type, and its key in the argument of the bulk setter.\<close>

primrec slot :: "expo_command_type \<Rightarrow> implementations \<Rightarrow> impl" where
  "slot Reload = executeReload"
| "slot ToggleInspector = executeToggleInspector"
| "slot TogglePerformanceMonitor = executeTogglePerformanceMonitor"
| "slot ToggleElementInspector = executeToggleElementInspector"
| "slot ClearCache = executeClearCache"
| "slot ToggleRemoteDebugging = executeToggleRemoteDebugging"
| "slot OpenDevMenu = executeOpenDevMenu"
| "slot TakeScreenshot = executeTakeScreenshot"
| "slot ShakeDevice = executeShakeDevice"

primrec map_key :: "expo_command_type \<Rightarrow> implementation_map \<Rightarrow> impl option" where
  "map_key Reload = reload"
| "map_key ToggleInspector = toggleInspector"
| "map_key TogglePerformanceMonitor = togglePerformanceMonitor"
| "map_key ToggleElementInspector = toggleElementInspector"
| "map_key ClearCache = clearCache"
| "map_key ToggleRemoteDebugging = toggleRemoteDebugging"
| "map_key OpenDevMenu = openDevMenu"
| "map_key TakeScreenshot = takeScreenshot"
| "map_key ShakeDevice = shakeDevice"

text \<open>The native functions a default implementation probes, in the order of its chain.\<close>

primrec native_apis :: "expo_command_type \<Rightarrow> js_global \<Rightarrow> native_result option list" where
  "native_apis Reload g =
     [expo_method g expo_reload, devSettings_method g ds_reload, devMenu_method g dm_reload]"
| "native_apis ToggleInspector g =
     [devSettings_method g ds_toggleElementInspector, devMenu_method g dm_toggleElementInspector]"
| "native_apis TogglePerformanceMonitor g =
     [devSettings_method g ds_togglePerformanceMonitor, devMenu_method g dm_togglePerformanceMonitor]"
| "native_apis ToggleElementInspector g =
     [devSettings_method g ds_toggleElementInspector, devMenu_method g dm_toggleElementInspector]"
| "native_apis ClearCache g = [asyncStorage_clear g, imageLoader_clearCache g]"
| "native_apis ToggleRemoteDebugging g =
     [devSettings_method g ds_setIsDebuggingRemotely, devMenu_method g dm_toggleRemoteDebugging]"
| "native_apis OpenDevMenu g = [expo_method g expo_openDevMenu, devMenu_method g dm_show]"
| "native_apis TakeScreenshot g = [rnScreenshot_takeScreenshot g]"
| "native_apis ShakeDevice g = [devSettings_reload_then_show g, devMenu_method g dm_show]"

text \<open>The setter each notice names, and the words the notice starts with.\<close>

primrec setter_name :: "expo_command_type \<Rightarrow> string" where
  "setter_name Reload = ''setReloadImplementation''"
| "setter_name ToggleInspector = ''setToggleInspectorImplementation''"
| "setter_name TogglePerformanceMonitor = ''setTogglePerformanceMonitorImplementation''"
| "setter_name ToggleElementInspector = ''setToggleElementInspectorImplementation''"
| "setter_name ClearCache = ''setClearCacheImplementation''"
| "setter_name ToggleRemoteDebugging = ''setToggleRemoteDebuggingImplementation''"
| "setter_name OpenDevMenu = ''setOpenDevMenuImplementation''"
| "setter_name TakeScreenshot = ''setTakeScreenshotImplementation''"
| "setter_name ShakeDevice = ''setShakeDeviceImplementation''"

primrec notice_subject :: "expo_command_type \<Rightarrow> string" where
  "notice_subject Reload = ''Reload''"
| "notice_subject ToggleInspector = ''Toggle inspector''"
| "notice_subject TogglePerformanceMonitor = ''Toggle performance monitor''"
| "notice_subject ToggleElementInspector = ''Toggle element inspector''"
| "notice_subject ClearCache = ''Clear cache''"
| "notice_subject ToggleRemoteDebugging = ''Toggle remote debugging''"
| "notice_subject OpenDevMenu = ''Open dev menu''"
| "notice_subject TakeScreenshot = ''Take screenshot''"
| "notice_subject ShakeDevice = ''Shake device''"

definition notice_text :: "expo_command_type \<Rightarrow> string" where
  "notice_text c =
     notice_subject c @ '' command received but no implementation found. Override with ''
       @ setter_name c @ ''() for custom behavior.''"

section \<open>The state the hook works on\<close>

datatype interceptor_kind = FetchTap | XHRTap | WebSocketTap

text \<open>
  A disposer, as a ref holds it: calling it removes the tap it was returned for, or it
  throws.
\<close>

datatype disposer = RemoveTap nat | FaultyDisposer js_thrown

text \<open>The \<^verbatim>\<open>asyncStorage\<close> prop, when given: it works, or every call rejects.\<close>

datatype storage_collaborator = WorkingStorage | FailingStorage js_thrown

record network_monitoring_options =
  nmo_fetch :: bool
  nmo_xhr :: bool
  nmo_websocket :: bool

text \<open>The props of the hook that the handlers close over.\<close>

record config =
  deviceName :: string
  deviceId :: string
  enableLogs :: bool
  asyncStorage :: "storage_collaborator option"
  networkMonitoring :: "network_monitoring_options option"
  queriesVersion :: "string option"

definition logPrefix :: "config \<Rightarrow> string" where
  "logPrefix cfg = ''['' @ deviceName cfg @ '']''"

text \<open>
  Everything the handlers read or change: the query cache and the mutation cache, the
  online flag, what was emitted on the socket and passed to the logger, the console, the
  key/value store, the three disposer refs, the taps installed, the socket listeners and
  the cache subscription, the ref of the last connection state, and the clock.
\<close>

record world =
  w_queries :: "query list"
  w_mutations :: "nat list"
  w_online :: bool
  w_emitted :: "emission list"
  w_log :: "log_call list"
  w_console :: "event list"
  w_storage :: "(string \<times> string) list"
  w_removeFetchInterceptorRef :: "disposer option"
  w_removeXHRInterceptorRef :: "disposer option"
  w_removeWebSocketInterceptorRef :: "disposer option"
  w_taps :: "(interceptor_kind \<times> nat) list"
  w_installs :: nat
  w_listeners :: "string list"
  w_cache_subscribed :: bool
  w_prevConnected :: bool
  w_now :: nat

definition add_log :: "config \<Rightarrow> string \<Rightarrow> log_level \<Rightarrow> world \<Rightarrow> world" where
  "add_log cfg msg lvl w = w\<lparr>w_log := w_log w @ [LogCall msg (enableLogs cfg) lvl]\<rparr>"

definition emit :: "string \<Rightarrow> payload \<Rightarrow> world \<Rightarrow> world" where
  "emit ev p w = w\<lparr>w_emitted := w_emitted w @ [(ev, p)]\<rparr>"

text \<open>A length as the template literals print it: in decimal.\<close>

definition digit_char :: "nat \<Rightarrow> char" where
  "digit_char d = ''0123456789'' ! (d mod 10)"

fun decimal :: "nat \<Rightarrow> string" where
  "decimal n = (if 10 \<le> n then decimal (n div 10) else []) @ [digit_char n]"

text \<open>
  Modelled from the spec: \<^verbatim>\<open>Dehydrate\<close> (hydration.ts, not among the sources) produces
  the snapshot of the live cache: the query records in order with hash, key and state,
  and the mutation records.
\<close>

definition Dehydrate :: "world \<Rightarrow> dehydrated_state" where
  "Dehydrate w =
     \<lparr> dh_mutations = w_mutations w,
       dh_queries = map (\<lambda>q. \<lparr> dq_queryHash = q_queryHash q, dq_queryKey = q_queryKey q,
                                 dq_state = q_state q \<rparr>) (w_queries w) \<rparr>"

text \<open>
  The callback given to \<^verbatim>\<open>queryClient.getQueryCache().subscribe\<close>: one query-sync
  message with the full snapshot for each cache event.
\<close>

definition cache_change_callback :: "config \<Rightarrow> world \<Rightarrow> world" where
  "cache_change_callback cfg w =
     (if deviceId cfg = [] then add_log cfg (logPrefix cfg @ '' No persistent device ID found'') LevelWarn w
      else emit ''query-sync'' (SyncMessage (Dehydrate w) (w_online w) (deviceId cfg)) w)"

text \<open>The query cache tells its subscribers of an event, when the callback is subscribed.\<close>

definition notify :: "config \<Rightarrow> world \<Rightarrow> world" where
  "notify cfg w = (if w_cache_subscribed w then cache_change_callback cfg w else w)"

primrec notify_times :: "nat \<Rightarrow> config \<Rightarrow> world \<Rightarrow> world" where
  "notify_times 0 cfg w = w"
| "notify_times (Suc n) cfg w = notify_times n cfg (notify cfg w)"

section \<open>The cache library's operations\<close>

text \<open>
  These follow the data-fetching library (an external collaborator), as far as the
  handlers depend on it.

  \<^verbatim>\<open>queryCache.get(queryHash)\<close>.
\<close>

definition cache_get :: "string \<Rightarrow> query list \<Rightarrow> query option" where
  "cache_get h qs = find (\<lambda>q. q_queryHash q = h) qs"

text \<open>A change made through the reference \<^verbatim>\<open>activeQuery\<close> changes the query in the cache.\<close>

definition update_query :: "string \<Rightarrow> (query \<Rightarrow> query) \<Rightarrow> query list \<Rightarrow> query list" where
  "update_query h f qs = map (\<lambda>q. if q_queryHash q = h then f q else q) qs"

text \<open>
  \<^verbatim>\<open>query.setState(state)\<close>: the given fields replace the current ones (the argument
  says which), and the cache tells its subscribers.
\<close>

definition query_setState ::
  "config \<Rightarrow> string \<Rightarrow> (query_state \<Rightarrow> query_state) \<Rightarrow> world \<Rightarrow> world" where
  "query_setState cfg h upd w =
     notify cfg (w\<lparr>w_queries := update_query h (\<lambda>q. q\<lparr>q_state := upd (q_state q)\<rparr>) (w_queries w)\<rparr>)"

text \<open>
  The state change when a fetch starts: fetching, or paused while offline; the fetch
  meta is reset; a query without data goes to pending with no error.
\<close>

definition fetch_started :: "bool \<Rightarrow> query_state \<Rightarrow> query_state" where
  "fetch_started online st =
     (let st1 = st\<lparr>qs_fetchStatus := (if online then Fetching else Paused), qs_fetchMeta := None\<rparr>
      in if qs_data st = None then st1\<lparr>qs_error := None, qs_status := QueryPending\<rparr> else st1)"

text \<open>
  \<^verbatim>\<open>query.fetch(options)\<close> on one query: while a fetch is going on and the query has
  a retryer, the call returns that retryer's promise and changes nothing; otherwise the
  options passed become the query's options and a fetch with them starts, under a new
  retryer (a fetch still running then goes on unobserved).
\<close>

definition starts_fetch :: "query \<Rightarrow> bool" where
  "starts_fetch q = (\<not> (qs_fetchStatus (q_state q) \<noteq> Idle \<and> q_retryer q \<noteq> None))"

definition fetch_query :: "bool \<Rightarrow> query_options option \<Rightarrow> query \<Rightarrow> query" where
  "fetch_query online opts q =
     (if \<not> starts_fetch q then q
      else let os = (case opts of None \<Rightarrow> q_options q | Some given \<Rightarrow> given)
           in q\<lparr>q_options := os,
                q_retryer := Some \<lparr> rt_options = os, rt_cancelled = False, rt_catch = [] \<rparr>,
                q_orphans := running_fetches q,
                q_state := fetch_started online (q_state q)\<rparr>)"

text \<open>
  The cache events of a fetch that starts: the fetch event, and the pause event that
  follows it at once while offline.
\<close>

definition query_fetch :: "config \<Rightarrow> string \<Rightarrow> query_options option \<Rightarrow> world \<Rightarrow> world" where
  "query_fetch cfg h opts w =
     (case cache_get h (w_queries w) of
        None \<Rightarrow> w
      | Some q \<Rightarrow>
          (let w1 = w\<lparr>w_queries := update_query h (fetch_query (w_online w) opts) (w_queries w)\<rparr>
           in if starts_fetch q
              then (if w_online w then notify cfg w1 else notify cfg (notify cfg w1))
              else w1))"

text \<open>
  \<^verbatim>\<open>query.cancel({ silent: true })\<close>: the retryer is cancelled and its promise rejects;
  a silent cancel dispatches no error, so the state stays and no subscriber is told.
\<close>

definition cancel_retryer :: "retryer \<Rightarrow> retryer" where
  "cancel_retryer r = r\<lparr>rt_cancelled := True\<rparr>"

definition query_cancel_silent :: "string \<Rightarrow> world \<Rightarrow> world" where
  "query_cancel_silent h w =
     w\<lparr>w_queries := update_query h (\<lambda>q. q\<lparr>q_retryer := map_option cancel_retryer (q_retryer q)\<rparr>)
                      (w_queries w)\<rparr>"

text \<open>
  The logger calls attached to the promise of the running fetch of a query: they run,
  after the handler at work has returned, when that promise rejects.
\<close>

definition rejection_callbacks :: "string \<Rightarrow> world \<Rightarrow> log_call list" where
  "rejection_callbacks h w =
     (case cache_get h (w_queries w) of
        None \<Rightarrow> []
      | Some q \<Rightarrow>
          (case q_retryer q of
             None \<Rightarrow> []
           | Some r \<Rightarrow> if rt_cancelled r then [] else rt_catch r))"

definition run_callbacks :: "log_call list \<Rightarrow> world \<Rightarrow> world" where
  "run_callbacks cs w = w\<lparr>w_log := w_log w @ cs\<rparr>"

text \<open>
  \<^verbatim>\<open>promise.catch(handler)\<close> on the promise \<^verbatim>\<open>query.fetch()\<close> gave back: the handler
  waits on the retryer, or runs next when that promise has rejected already.
\<close>

definition attach_catch :: "string \<Rightarrow> log_call \<Rightarrow> world \<Rightarrow> world" where
  "attach_catch h c w =
     (case cache_get h (w_queries w) of
        None \<Rightarrow> w
      | Some q \<Rightarrow>
          (case q_retryer q of
             None \<Rightarrow> w
           | Some r \<Rightarrow>
               if rt_cancelled r then run_callbacks [c] w
               else w\<lparr>w_queries :=
                      update_query h (\<lambda>q. q\<lparr>q_retryer := Some (r\<lparr>rt_catch := rt_catch r @ [c]\<rparr>)\<rparr>)
                        (w_queries w)\<rparr>))"

text \<open>
  The running fetch of a query fails for good (an event of the library, not of a
  handler): the query goes to the error state, the cache tells its subscribers, and the
  attached logger calls run.
\<close>

definition fetch_rejected :: "config \<Rightarrow> string \<Rightarrow> js_thrown \<Rightarrow> world \<Rightarrow> world" where
  "fetch_rejected cfg h e w =
     run_callbacks (rejection_callbacks h w)
       (notify cfg
          (w\<lparr>w_queries :=
               update_query h
                 (\<lambda>q. q\<lparr>q_retryer := map_option cancel_retryer (q_retryer q),
                         q_state := (q_state q)\<lparr>qs_status := QueryError, qs_error := Some e,
                                       qs_fetchStatus := Idle\<rparr>\<rparr>)
                 (w_queries w)\<rparr>))"

text \<open>
  \<^verbatim>\<open>queryCache.clear()\<close> removes the queries one after the other, telling the
  subscribers after each removal; \<^verbatim>\<open>mutationCache.clear()\<close> removes every mutation
  (the query cache's subscribers are not told).
\<close>

primrec remove_each :: "config \<Rightarrow> query list \<Rightarrow> world \<Rightarrow> world" where
  "remove_each cfg [] w = w"
| "remove_each cfg (q # qs) w =
     remove_each cfg qs
       (notify cfg (w\<lparr>w_queries := filter (\<lambda>x. q_queryHash x \<noteq> q_queryHash q) (w_queries w)\<rparr>))"

definition queryCache_clear :: "config \<Rightarrow> world \<Rightarrow> world" where
  "queryCache_clear cfg w = remove_each cfg (w_queries w) w"

definition mutationCache_clear :: "world \<Rightarrow> world" where
  "mutationCache_clear w = w\<lparr>w_mutations := []\<rparr>"

text \<open>
  The query client's other operations (\<^verbatim>\<open>setQueryData\<close>, \<^verbatim>\<open>resetQueries\<close>,
  \<^verbatim>\<open>removeQueries\<close>, \<^verbatim>\<open>invalidateQueries\<close>) are parameters of the handler: each
  gives the cache after the call and the number of cache events it raised.
\<close>

record query_client =
  qc_setQueryData :: "string list \<Rightarrow> string option \<Rightarrow> nat \<Rightarrow> query list \<Rightarrow> query list \<times> nat"
  qc_resetQueries :: "query \<Rightarrow> query list \<Rightarrow> query list \<times> nat"
  qc_removeQueries :: "query \<Rightarrow> query list \<Rightarrow> query list \<times> nat"
  qc_invalidateQueries :: "query \<Rightarrow> query list \<Rightarrow> query list \<times> nat"

definition client_call :: "config \<Rightarrow> (query list \<Rightarrow> query list \<times> nat) \<Rightarrow> world \<Rightarrow> world" where
  "client_call cfg f w =
     (let r = f (w_queries w) in notify_times (snd r) cfg (w\<lparr>w_queries := fst r\<rparr>))"

section \<open>The query-action handler\<close>

datatype query_action =
    ACTION_REFETCH | ACTION_INVALIDATE | ACTION_RESET | ACTION_REMOVE | ACTION_DATA_UPDATE
  | ACTION_TRIGGER_ERROR | ACTION_RESTORE_ERROR
  | ACTION_TRIGGER_LOADING | ACTION_RESTORE_LOADING
  | ACTION_ONLINE_MANAGER_ONLINE | ACTION_ONLINE_MANAGER_OFFLINE
  | ACTION_SUCCESS
  | ACTION_CLEAR_MUTATION_CACHE | ACTION_CLEAR_QUERY_CACHE

primrec action_name :: "query_action \<Rightarrow> string" where
  "action_name ACTION_REFETCH = ''ACTION-REFETCH''"
| "action_name ACTION_INVALIDATE = ''ACTION-INVALIDATE''"
| "action_name ACTION_RESET = ''ACTION-RESET''"
| "action_name ACTION_REMOVE = ''ACTION-REMOVE''"
| "action_name ACTION_DATA_UPDATE = ''ACTION-DATA-UPDATE''"
| "action_name ACTION_TRIGGER_ERROR = ''ACTION-TRIGGER-ERROR''"
| "action_name ACTION_RESTORE_ERROR = ''ACTION-RESTORE-ERROR''"
| "action_name ACTION_TRIGGER_LOADING = ''ACTION-TRIGGER-LOADING''"
| "action_name ACTION_RESTORE_LOADING = ''ACTION-RESTORE-LOADING''"
| "action_name ACTION_ONLINE_MANAGER_ONLINE = ''ACTION-ONLINE-MANAGER-ONLINE''"
| "action_name ACTION_ONLINE_MANAGER_OFFLINE = ''ACTION-ONLINE-MANAGER-OFFLINE''"
| "action_name ACTION_SUCCESS = ''success''"
| "action_name ACTION_CLEAR_MUTATION_CACHE = ''ACTION-CLEAR-MUTATION-CACHE''"
| "action_name ACTION_CLEAR_QUERY_CACHE = ''ACTION-CLEAR-QUERY-CACHE''"

record query_action_message =
  qa_queryHash :: string
  qa_queryKey :: "string list"
  qa_data :: "string option"
  qa_action :: query_action
  qa_targetDeviceId :: string

text \<open>\<^verbatim>\<open>{ ...activeQuery.state.fetchMeta, __previousQueryOptions }\<close>\<close>

definition stash_options :: "query_options \<Rightarrow> fetch_meta option \<Rightarrow> fetch_meta" where
  "stash_options prev fm =
     (case fm of
        None \<Rightarrow> \<lparr> fm_fetchMore = None, fm_previousQueryOptions = Some prev \<rparr>
      | Some m \<Rightarrow> m\<lparr>fm_previousQueryOptions := Some prev\<rparr>)"

text \<open>
  \<^verbatim>\<open>activeQuery.state.fetchMeta ? fetchMeta.__previousQueryOptions : null\<close>
\<close>

definition stashed_options :: "query_state \<Rightarrow> query_options option" where
  "stashed_options st =
     (case qs_fetchMeta st of None \<Rightarrow> None | Some fm \<Rightarrow> fm_previousQueryOptions fm)"

text \<open>The options of the forced fetch: the query function never resolves, \<^verbatim>\<open>gcTime: -1\<close>.\<close>

definition forced_options :: "query_options \<Rightarrow> query_options" where
  "forced_options prev = prev\<lparr>opt_queryFn := NeverResolves, opt_gcTime := - 1\<rparr>"

text \<open>The \<^verbatim>\<open>switch (action)\<close> on a query that was found.\<close>

definition apply_query_action ::
  "config \<Rightarrow> query_client \<Rightarrow> query_action_message \<Rightarrow> query \<Rightarrow> world \<Rightarrow> world" where
  "apply_query_action cfg qc m activeQuery w =
     (let h = q_queryHash activeQuery in
      case qa_action m of
        ACTION_DATA_UPDATE \<Rightarrow>
          client_call cfg (qc_setQueryData qc (qa_queryKey m) (qa_data m) (w_now w))
            (add_log cfg (logPrefix cfg @ '' Updating data for query:'') LevelLog w)
      | ACTION_TRIGGER_ERROR \<Rightarrow>
          query_setState cfg h
            (\<lambda>st. st\<lparr> qs_status := QueryError,
                      qs_error := Some (ErrorInstance ''Error'' ''Unknown error from devtools''),
                      qs_fetchMeta := Some (stash_options (q_options activeQuery)
                                              (qs_fetchMeta (q_state activeQuery))) \<rparr>)
            (add_log cfg (logPrefix cfg @ '' Triggering error state for query:'') LevelLog w)
      | ACTION_RESTORE_ERROR \<Rightarrow>
          client_call cfg (qc_resetQueries qc activeQuery)
            (add_log cfg (logPrefix cfg @ '' Restoring from error state for query:'') LevelLog w)
      | ACTION_TRIGGER_LOADING \<Rightarrow>
          (let w1 = add_log cfg (logPrefix cfg @ '' Triggering loading state for query:'') LevelLog w;
               previousQueryOptions = q_options activeQuery;
               w2 = query_fetch cfg h (Some (forced_options previousQueryOptions)) w1
           in query_setState cfg h
                (\<lambda>st. st\<lparr> qs_data := None, qs_status := QueryPending,
                          qs_fetchMeta := Some (stash_options previousQueryOptions (qs_fetchMeta st)) \<rparr>)
                w2)
      | ACTION_RESTORE_LOADING \<Rightarrow>
          (let w1 = add_log cfg (logPrefix cfg @ '' Restoring from loading state for query:'') LevelLog w;
               previousState = q_state activeQuery;
               previousOptions = stashed_options previousState;
               callbacks = rejection_callbacks h w1;
               w2 = query_cancel_silent h w1;
               w3 = query_setState cfg h
                      (\<lambda>st. previousState\<lparr>qs_fetchStatus := Idle, qs_fetchMeta := None\<rparr>) w2
           in run_callbacks callbacks
                (case previousOptions of
                   None \<Rightarrow> w3
                 | Some os \<Rightarrow> query_fetch cfg h (Some os) w3))
      | ACTION_RESET \<Rightarrow>
          client_call cfg (qc_resetQueries qc activeQuery)
            (add_log cfg (logPrefix cfg @ '' Resetting query:'') LevelLog w)
      | ACTION_REMOVE \<Rightarrow>
          client_call cfg (qc_removeQueries qc activeQuery)
            (add_log cfg (logPrefix cfg @ '' Removing query:'') LevelLog w)
      | ACTION_REFETCH \<Rightarrow>
          attach_catch h
            (LogCall (''['' @ deviceName cfg @ ''] Refetch error for '' @ qa_queryHash m @ '':'')
               (enableLogs cfg) LevelError)
            (query_fetch cfg h None
               (add_log cfg (logPrefix cfg @ '' Refetching query:'') LevelLog w))
      | ACTION_INVALIDATE \<Rightarrow>
          client_call cfg (qc_invalidateQueries qc activeQuery)
            (add_log cfg (logPrefix cfg @ '' Invalidating query:'') LevelLog w)
      | ACTION_ONLINE_MANAGER_ONLINE \<Rightarrow>
          (add_log cfg (logPrefix cfg @ '' Setting online state: ONLINE'') LevelLog w)
            \<lparr>w_online := True\<rparr>
      | ACTION_ONLINE_MANAGER_OFFLINE \<Rightarrow>
          (add_log cfg (logPrefix cfg @ '' Setting online state: OFFLINE'') LevelLog w)
            \<lparr>w_online := False\<rparr>
      | ACTION_SUCCESS \<Rightarrow> w
      | ACTION_CLEAR_MUTATION_CACHE \<Rightarrow> w
      | ACTION_CLEAR_QUERY_CACHE \<Rightarrow> w)"

text \<open>The listener of \<^verbatim>\<open>query-action\<close>.\<close>

definition on_query_action ::
  "config \<Rightarrow> query_client \<Rightarrow> query_action_message \<Rightarrow> world \<Rightarrow> world" where
  "on_query_action cfg qc m w =
     (if deviceId cfg = []
      then add_log cfg (''['' @ deviceName cfg @ ''] No persistent device ID found'') LevelWarn w
      else if \<not> shouldProcessMessage (qa_targetDeviceId m) (deviceId cfg) then w
      else
        (let w1 = add_log cfg (logPrefix cfg @ '' Received query action: '' @ action_name (qa_action m)
                      @ '' for query '' @ qa_queryHash m) LevelLog w
         in if qa_action m = ACTION_CLEAR_MUTATION_CACHE
            then add_log cfg (logPrefix cfg @ '' Cleared mutation cache'') LevelLog
                   (mutationCache_clear w1)
            else if qa_action m = ACTION_CLEAR_QUERY_CACHE
            then add_log cfg (logPrefix cfg @ '' Cleared query cache'') LevelLog
                   (queryCache_clear cfg w1)
            else (case cache_get (qa_queryHash m) (w_queries w1) of
                    None \<Rightarrow>
                      add_log cfg (logPrefix cfg @ '' Query with hash '' @ qa_queryHash m
                        @ '' not found'') LevelWarn w1
                  | Some activeQuery \<Rightarrow> apply_query_action cfg qc m activeQuery w1)))"

section \<open>The online-manager handler\<close>

record online_manager_message =
  om_action :: query_action
  om_targetDeviceId :: string

definition on_online_manager :: "config \<Rightarrow> online_manager_message \<Rightarrow> world \<Rightarrow> world" where
  "on_online_manager cfg m w =
     (if deviceId cfg = []
      then add_log cfg (logPrefix cfg @ '' No persistent device ID found'') LevelWarn w
      else if \<not> shouldProcessMessage (om_targetDeviceId m) (deviceId cfg) then w
      else
        (let w1 = add_log cfg (''['' @ deviceName cfg @ ''] Received online-manager action: ''
                      @ action_name (om_action m)) LevelLog w
         in if om_action m = ACTION_ONLINE_MANAGER_ONLINE
            then (add_log cfg (logPrefix cfg @ '' Set online state: ONLINE'') LevelLog w1)
                   \<lparr>w_online := True\<rparr>
            else if om_action m = ACTION_ONLINE_MANAGER_OFFLINE
            then (add_log cfg (logPrefix cfg @ '' Set online state: OFFLINE'') LevelLog w1)
                   \<lparr>w_online := False\<rparr>
            else w1))"

section \<open>The AsyncStorage handlers\<close>

primrec storage_action_name :: "async_storage_action_type \<Rightarrow> string" where
  "storage_action_name GET_ALL_KEYS = ''GET_ALL_KEYS''"
| "storage_action_name GET_ITEM = ''GET_ITEM''"
| "storage_action_name SET_ITEM = ''SET_ITEM''"
| "storage_action_name REMOVE_ITEM = ''REMOVE_ITEM''"
| "storage_action_name CLEAR_ALL = ''CLEAR_ALL''"

text \<open>\<^verbatim>\<open>getItem(key)\<close>: the value, or null.\<close>

definition getItem :: "string \<Rightarrow> world \<Rightarrow> string option" where
  "getItem k w = map_of (w_storage w) k"

text \<open>
  \<^verbatim>\<open>log(`... ${error}`, enableLogs, "error")\<close> in a \<^verbatim>\<open>catch\<close> block: the template
  literal is evaluated first, and throws when the caught value does not convert.
\<close>

definition log_thrown :: "config \<Rightarrow> string \<Rightarrow> js_thrown \<Rightarrow> world \<Rightarrow> world \<times> outcome" where
  "log_thrown cfg before e w =
     (case template_text e of
        Inl t \<Rightarrow> (w, Throws t)
      | Inr shown \<Rightarrow> (add_log cfg (before @ shown) LevelError w, Returns))"

text \<open>
  \<^verbatim>\<open>sendAsyncStorageState\<close>: every key with its value (\<^verbatim>\<open>value || ''\<close>), in one
  async-storage-sync message; an error of the store is caught and logged.
\<close>

definition sendAsyncStorageState :: "config \<Rightarrow> world \<Rightarrow> world \<times> outcome" where
  "sendAsyncStorageState cfg w =
     (case asyncStorage cfg of
        None \<Rightarrow> (w, Returns)
      | Some sc \<Rightarrow>
          if deviceId cfg = [] then (w, Returns)
          else (case sc of
                  FailingStorage e \<Rightarrow>
                    log_thrown cfg (logPrefix cfg @ '' Error sending AsyncStorage state: '') e w
                | WorkingStorage \<Rightarrow>
                    (let items = map (\<lambda>k. (k, case getItem k w of None \<Rightarrow> [] | Some v \<Rightarrow> v))
                                   (map fst (w_storage w))
                     in (add_log cfg (logPrefix cfg @ '' Sent AsyncStorage state to dashboard (''
                            @ decimal (length items) @ '' items)'') LevelLog
                          (emit ''async-storage-sync''
                             (AsyncStorageSyncMessage items (w_now w) (deviceId cfg)) w),
                         Returns))))"

text \<open>A key that is present and not the empty string.\<close>

definition truthy :: "string option \<Rightarrow> bool" where
  "truthy k = (case k of None \<Rightarrow> False | Some s \<Rightarrow> s \<noteq> [])"

text \<open>
  The \<^verbatim>\<open>switch (action)\<close> inside the \<^verbatim>\<open>try\<close>, when the store is given; a call of
  a failing store throws there.
\<close>

definition storage_action ::
  "config \<Rightarrow> storage_collaborator \<Rightarrow> async_storage_action_message \<Rightarrow> world
     \<Rightarrow> world \<times> outcome" where
  "storage_action cfg sc m w =
     (case asa_action m of
        GET_ALL_KEYS \<Rightarrow> sendAsyncStorageState cfg w
      | GET_ITEM \<Rightarrow>
          (if truthy (asa_key m)
           then (case sc of
                   FailingStorage e \<Rightarrow> (w, Throws e)
                 | WorkingStorage \<Rightarrow>
                     sendAsyncStorageState cfg
                       (add_log cfg (logPrefix cfg @ '' Got AsyncStorage item: '' @ the (asa_key m) @ '' = ''
                          @ (case getItem (the (asa_key m)) w of None \<Rightarrow> ''null'' | Some v \<Rightarrow> v))
                          LevelLog w))
           else (w, Returns))
      | SET_ITEM \<Rightarrow>
          (if truthy (asa_key m) \<and> asa_value m \<noteq> None
           then (case sc of
                   FailingStorage e \<Rightarrow> (w, Throws e)
                 | WorkingStorage \<Rightarrow>
                     sendAsyncStorageState cfg
                       (add_log cfg (logPrefix cfg @ '' Set AsyncStorage item: '' @ the (asa_key m) @ '' = ''
                          @ the (asa_value m)) LevelLog
                          (w\<lparr>w_storage := AList.update (the (asa_key m)) (the (asa_value m))
                                             (w_storage w)\<rparr>)))
           else (w, Returns))
      | REMOVE_ITEM \<Rightarrow>
          (if truthy (asa_key m)
           then (case sc of
                   FailingStorage e \<Rightarrow> (w, Throws e)
                 | WorkingStorage \<Rightarrow>
                     sendAsyncStorageState cfg
                       (add_log cfg (logPrefix cfg @ '' Removed AsyncStorage item: '' @ the (asa_key m))
                          LevelLog
                          (w\<lparr>w_storage := AList.delete (the (asa_key m)) (w_storage w)\<rparr>)))
           else (w, Returns))
      | CLEAR_ALL \<Rightarrow>
          (case sc of
             FailingStorage e \<Rightarrow> (w, Throws e)
           | WorkingStorage \<Rightarrow>
               sendAsyncStorageState cfg
                 (add_log cfg (logPrefix cfg @ '' Cleared all AsyncStorage items'') LevelLog
                    (w\<lparr>w_storage := []\<rparr>))))"

text \<open>\<^verbatim>\<open>try { ... } catch (error) { log(`... ${error}`, ...) }\<close> around that switch.\<close>

definition storage_action_caught ::
  "config \<Rightarrow> storage_collaborator \<Rightarrow> async_storage_action_message \<Rightarrow> world
     \<Rightarrow> world \<times> outcome" where
  "storage_action_caught cfg sc m w =
     (let r = storage_action cfg sc m w
      in case snd r of
           Throws e \<Rightarrow>
             log_thrown cfg (logPrefix cfg @ '' Error handling AsyncStorage action: '') e (fst r)
         | Returns \<Rightarrow> r
         | Hangs \<Rightarrow> r)"

text \<open>The listener of \<^verbatim>\<open>async-storage-action\<close>.\<close>

definition on_async_storage_action ::
  "config \<Rightarrow> async_storage_action_message \<Rightarrow> world \<Rightarrow> world \<times> outcome" where
  "on_async_storage_action cfg m w =
     (if deviceId cfg = []
      then (add_log cfg (logPrefix cfg @ '' No persistent device ID found'') LevelWarn w, Returns)
      else if \<not> shouldProcessMessage (asa_targetDeviceId m) (deviceId cfg) then (w, Returns)
      else
        (let w1 = add_log cfg (logPrefix cfg @ '' Received AsyncStorage action: ''
                      @ storage_action_name (asa_action m)
                      @ (if truthy (asa_key m) then '' for key '' @ the (asa_key m) else []))
                    LevelLog w
         in case asyncStorage cfg of
              Some sc \<Rightarrow> storage_action_caught cfg sc m w1
            | None \<Rightarrow>
                (add_log cfg (logPrefix cfg
                    @ '' Emitted async-storage-action-received event for app to handle'') LevelLog
                  (emit ''async-storage-action-received'' (AsyncStorageActionReceived m) w1),
                 Returns)))"

text \<open>The listener of \<^verbatim>\<open>request-async-storage\<close>; the message carries the target.\<close>

definition on_request_async_storage :: "config \<Rightarrow> string \<Rightarrow> world \<Rightarrow> world \<times> outcome" where
  "on_request_async_storage cfg targetDeviceId w =
     (if deviceId cfg = []
      then (add_log cfg (logPrefix cfg @ '' No persistent device ID found'') LevelWarn w, Returns)
      else if \<not> shouldProcessMessage targetDeviceId (deviceId cfg) then (w, Returns)
      else
        (let w1 = add_log cfg (logPrefix cfg @ '' Dashboard is requesting AsyncStorage state'') LevelLog w
         in case asyncStorage cfg of
              Some sc \<Rightarrow> sendAsyncStorageState cfg w1
            | None \<Rightarrow>
                (add_log cfg (logPrefix cfg
                    @ '' Emitted request-async-storage-received event for app to handle'') LevelLog
                  (emit ''request-async-storage-received'' RequestAsyncStorageReceived w1),
                 Returns)))"

section \<open>Network monitoring\<close>

primrec get_ref :: "interceptor_kind \<Rightarrow> world \<Rightarrow> disposer option" where
  "get_ref FetchTap w = w_removeFetchInterceptorRef w"
| "get_ref XHRTap w = w_removeXHRInterceptorRef w"
| "get_ref WebSocketTap w = w_removeWebSocketInterceptorRef w"

primrec set_ref :: "interceptor_kind \<Rightarrow> disposer option \<Rightarrow> world \<Rightarrow> world" where
  "set_ref FetchTap d w = w\<lparr>w_removeFetchInterceptorRef := d\<rparr>"
| "set_ref XHRTap d w = w\<lparr>w_removeXHRInterceptorRef := d\<rparr>"
| "set_ref WebSocketTap d w = w\<lparr>w_removeWebSocketInterceptorRef := d\<rparr>"

text \<open>
  Modelled from the spec: \<^verbatim>\<open>setupFetchInterceptor\<close>, \<^verbatim>\<open>setupXHRInterceptor\<close> and
  \<^verbatim>\<open>setupWebSocketInterceptor\<close> (sendNetworkRequest.ts, not among the sources) are
  \<^verbatim>\<open>install(kind) -> disposer\<close>: each call installs one more tap of its kind and returns
  the disposer of that tap.
\<close>

definition install_tap :: "interceptor_kind \<Rightarrow> world \<Rightarrow> disposer \<times> world" where
  "install_tap k w =
     (RemoveTap (w_installs w),
      w\<lparr>w_taps := w_taps w @ [(k, w_installs w)], w_installs := Suc (w_installs w)\<rparr>)"

definition setupFetchInterceptor :: "world \<Rightarrow> disposer \<times> world" where
  "setupFetchInterceptor = install_tap FetchTap"

definition setupXHRInterceptor :: "world \<Rightarrow> disposer \<times> world" where
  "setupXHRInterceptor = install_tap XHRTap"

definition setupWebSocketInterceptor :: "world \<Rightarrow> disposer \<times> world" where
  "setupWebSocketInterceptor = install_tap WebSocketTap"

primrec setup_interceptor :: "interceptor_kind \<Rightarrow> world \<Rightarrow> disposer \<times> world" where
  "setup_interceptor FetchTap = setupFetchInterceptor"
| "setup_interceptor XHRTap = setupXHRInterceptor"
| "setup_interceptor WebSocketTap = setupWebSocketInterceptor"

text \<open>\<^verbatim>\<open>ref.current = setupInterceptor(socket, deviceId, enableLogs)\<close>\<close>

definition install_into_ref :: "interceptor_kind \<Rightarrow> world \<Rightarrow> world" where
  "install_into_ref k w = (let r = setup_interceptor k w in set_ref k (Some (fst r)) (snd r))"

text \<open>\<^verbatim>\<open>if (!ref.current) { ref.current = setupInterceptor(...); }\<close>\<close>

definition enable_kind :: "interceptor_kind \<Rightarrow> world \<Rightarrow> world" where
  "enable_kind k w = (if get_ref k w = None then install_into_ref k w else w)"

text \<open>Calling a disposer.\<close>

primrec call_disposer :: "disposer \<Rightarrow> world \<Rightarrow> world \<times> outcome" where
  "call_disposer (RemoveTap n) w = (w\<lparr>w_taps := filter (\<lambda>t. snd t \<noteq> n) (w_taps w)\<rparr>, Returns)"
| "call_disposer (FaultyDisposer e) w = (w, Throws e)"

text \<open>\<^verbatim>\<open>if (ref.current) { ref.current(); ref.current = null; }\<close>\<close>

definition dispose_kind :: "interceptor_kind \<Rightarrow> world \<Rightarrow> world \<times> outcome" where
  "dispose_kind k w =
     (case get_ref k w of
        None \<Rightarrow> (w, Returns)
      | Some d \<Rightarrow>
          (let r = call_disposer d w
           in if snd r = Returns then (set_ref k None (fst r), Returns) else r))"

text \<open>The next statement runs only when the one before it returned.\<close>

definition and_then :: "world \<times> outcome \<Rightarrow> (world \<Rightarrow> world \<times> outcome) \<Rightarrow> world \<times> outcome" where
  "and_then r f = (if snd r = Returns then f (fst r) else r)"

datatype network_monitoring_action =
  ACTION_ENABLE_NETWORK_MONITORING | ACTION_DISABLE_NETWORK_MONITORING

primrec network_action_name :: "network_monitoring_action \<Rightarrow> string" where
  "network_action_name ACTION_ENABLE_NETWORK_MONITORING = ''ACTION-ENABLE-NETWORK-MONITORING''"
| "network_action_name ACTION_DISABLE_NETWORK_MONITORING = ''ACTION-DISABLE-NETWORK-MONITORING''"

record network_monitoring_action_message =
  nma_action :: network_monitoring_action
  nma_targetDeviceId :: string

text \<open>The two cases of the \<^verbatim>\<open>switch (action)\<close>.\<close>

definition enable_network_monitoring :: "config \<Rightarrow> world \<Rightarrow> world \<times> outcome" where
  "enable_network_monitoring cfg w =
     (enable_kind WebSocketTap (enable_kind XHRTap (enable_kind FetchTap
        (add_log cfg (logPrefix cfg @ '' Enabling network monitoring'') LevelLog w))), Returns)"

definition disable_network_monitoring :: "config \<Rightarrow> world \<Rightarrow> world \<times> outcome" where
  "disable_network_monitoring cfg w =
     and_then (and_then
       (dispose_kind FetchTap (add_log cfg (logPrefix cfg @ '' Disabling network monitoring'') LevelLog w))
       (dispose_kind XHRTap))
       (dispose_kind WebSocketTap)"

text \<open>The listener of \<^verbatim>\<open>network-monitoring-action\<close>.\<close>

definition on_network_monitoring_action ::
  "config \<Rightarrow> network_monitoring_action_message \<Rightarrow> world \<Rightarrow> world \<times> outcome" where
  "on_network_monitoring_action cfg m w =
     (if deviceId cfg = []
      then (add_log cfg (logPrefix cfg @ '' No persistent device ID found'') LevelWarn w, Returns)
      else if \<not> shouldProcessMessage (nma_targetDeviceId m) (deviceId cfg) then (w, Returns)
      else
        (let w1 = add_log cfg (logPrefix cfg @ '' Received network-monitoring action: ''
                      @ network_action_name (nma_action m)) LevelLog w
         in case nma_action m of
              ACTION_ENABLE_NETWORK_MONITORING \<Rightarrow> enable_network_monitoring cfg w1
            | ACTION_DISABLE_NETWORK_MONITORING \<Rightarrow> disable_network_monitoring cfg w1))"

text \<open>The listener of \<^verbatim>\<open>request-network-monitoring\<close>: it logs.\<close>

definition on_request_network_monitoring :: "config \<Rightarrow> string \<Rightarrow> world \<Rightarrow> world" where
  "on_request_network_monitoring cfg targetDeviceId w =
     (if deviceId cfg = []
      then add_log cfg (logPrefix cfg @ '' No persistent device ID found'') LevelWarn w
      else if \<not> shouldProcessMessage targetDeviceId (deviceId cfg) then w
      else add_log cfg (logPrefix cfg @ '' Dashboard is requesting network monitoring state'') LevelLog w)"

section \<open>The Expo handlers\<close>

record expo_command_action_message =
  eca_command :: string
  eca_targetDeviceId :: string
  eca_commandId :: string

text \<open>The listener of \<^verbatim>\<open>expo-command-action\<close>; it awaits executeExpoCommand.\<close>

definition on_expo_command_action ::
  "config \<Rightarrow> implementations \<Rightarrow> js_global \<Rightarrow> expo_command_action_message \<Rightarrow> world
     \<Rightarrow> world \<times> outcome" where
  "on_expo_command_action cfg t g m w =
     (if deviceId cfg = []
      then (add_log cfg (logPrefix cfg @ '' No persistent device ID found'') LevelWarn w, Returns)
      else if \<not> shouldProcessMessage (eca_targetDeviceId m) (deviceId cfg) then (w, Returns)
      else
        (let w1 = add_log cfg (logPrefix cfg @ '' Received Expo command action: '' @ eca_command m
                      @ '' (ID: '' @ eca_commandId m @ '')'') LevelLog w;
             expoCommand = \<lparr> cmd_id = eca_commandId m, cmd_type = eca_command m,
                             cmd_status = StatusPending, cmd_timestamp = w_now w,
                             cmd_deviceId = eca_targetDeviceId m, cmd_result = None,
                             cmd_error = None \<rparr>;
             r = executeExpoCommand t g expoCommand (deviceId cfg) (enableLogs cfg)
         in (w1\<lparr> w_emitted := w_emitted w1 @ ex_emitted r,
                 w_log := w_log w1 @ ex_log r,
                 w_console := w_console w1 @ ex_events r \<rparr>,
             ex_completion r)))"

text \<open>The listener of \<^verbatim>\<open>request-expo-devtools-status\<close>.\<close>

definition on_request_expo_devtools_status :: "config \<Rightarrow> string \<Rightarrow> world \<Rightarrow> world" where
  "on_request_expo_devtools_status cfg targetDeviceId w =
     (if deviceId cfg = []
      then add_log cfg (logPrefix cfg @ '' No persistent device ID found'') LevelWarn w
      else if \<not> shouldProcessMessage targetDeviceId (deviceId cfg) then w
      else
        emit ''expo-command-result''
          (ExpoCommandResultMessage
             \<lparr> cmd_id = ''status-check'', cmd_type = ''reload'', cmd_status = StatusSuccess,
               cmd_timestamp = w_now w, cmd_deviceId = targetDeviceId,
               cmd_result = Some ''{ expoDevToolsAvailable: true }'', cmd_error = None \<rparr>
             (deviceId cfg))
          (add_log cfg (logPrefix cfg @ '' Dashboard is requesting Expo DevTools status'') LevelLog w))"

section \<open>The initial-state handler\<close>

definition on_request_initial_state :: "config \<Rightarrow> world \<Rightarrow> world" where
  "on_request_initial_state cfg w =
     (if deviceId cfg = []
      then add_log cfg (logPrefix cfg @ '' No persistent device ID found'') LevelWarn w
      else
        (let w1 = add_log cfg (logPrefix cfg @ '' Dashboard is requesting initial state'') LevelLog w;
             dehydratedState = Dehydrate w1
         in add_log cfg (''['' @ deviceName cfg @ ''] Sent initial state to dashboard (''
                @ decimal (length (dh_queries dehydratedState)) @ '' queries)'') LevelLog
              (emit ''query-sync'' (SyncMessage dehydratedState (w_online w1) (deviceId cfg)) w1)))"

section \<open>The effect: installing and tearing down\<close>

text \<open>
  What \<^verbatim>\<open>socket.on(event, handler)\<close> returns is the socket itself (socket.io-client),
  kept here with the event it was returned for. Its \<^verbatim>\<open>off()\<close>, called with no
  argument, removes every listener of every event of the socket, or it throws. Likewise
  the function the cache's \<^verbatim>\<open>subscribe\<close> returns removes the cache subscription,
  or throws.
\<close>

datatype subscription = Subscription string | FaultySubscription string js_thrown

datatype unsubscribe_fn = Unsubscribe | FaultyUnsubscribe js_thrown

text \<open>The constants of the effect that its cleanup closes over.\<close>

record handles =
  initialStateSubscription :: "subscription option"
  onlineManagerSubscription :: "subscription option"
  queryActionSubscription :: "subscription option"
  unsubscribe :: unsubscribe_fn
  asyncStorageActionSubscription :: "subscription option"
  asyncStorageRequestSubscription :: "subscription option"
  networkMonitoringSubscription :: "subscription option"
  networkRequestSubscription :: "subscription option"
  expoCommandActionSubscription :: "subscription option"
  expoDevToolsRequestSubscription :: "subscription option"

definition socket_on :: "string \<Rightarrow> world \<Rightarrow> world" where
  "socket_on ev w = w\<lparr>w_listeners := w_listeners w @ [ev]\<rparr>"

text \<open>\<^verbatim>\<open>checkVersion(queryClient)\<close>: the warning is logged with logging forced on.\<close>

definition checkVersion :: "config \<Rightarrow> world \<Rightarrow> world" where
  "checkVersion cfg w =
     (case queriesVersion cfg of
        None \<Rightarrow> w
      | Some v \<Rightarrow>
          if v \<noteq> [] \<and> \<not> prefix ''4'' v \<and> \<not> prefix ''5'' v
          then w\<lparr>w_log := w_log w @ [LogCall ''This version of React Query has not been tested with the dev tools plugin. Some features might not work as expected.'' True LevelWarn]\<rparr>
          else w)"

text \<open>The interceptors that the \<^verbatim>\<open>networkMonitoring\<close> prop asks for at installation.\<close>

definition initial_network_monitoring :: "config \<Rightarrow> world \<Rightarrow> world" where
  "initial_network_monitoring cfg w =
     (case networkMonitoring cfg of
        None \<Rightarrow> w
      | Some nm \<Rightarrow>
          (let w1 = (if nmo_fetch nm
                     then install_into_ref FetchTap
                            (add_log cfg (logPrefix cfg @ '' Setting up fetch interceptor'') LevelLog w)
                     else w);
               w2 = (if nmo_xhr nm
                     then install_into_ref XHRTap
                            (add_log cfg (logPrefix cfg @ '' Setting up XHR interceptor'') LevelLog w1)
                     else w1)
           in if nmo_websocket nm
              then install_into_ref WebSocketTap
                     (add_log cfg (logPrefix cfg @ '' Setting up WebSocket interceptor'') LevelLog w2)
              else w2))"

text \<open>What \<^verbatim>\<open>useMySocket\<close> (not among the sources) hands to the hook.\<close>

record socket_hook =
  sh_isConnected :: bool
  sh_socket :: bool

definition installed_handles :: handles where
  "installed_handles =
     \<lparr> initialStateSubscription = Some (Subscription ''request-initial-state''),
       onlineManagerSubscription = Some (Subscription ''online-manager''),
       queryActionSubscription = Some (Subscription ''query-action''),
       unsubscribe = Unsubscribe,
       asyncStorageActionSubscription = Some (Subscription ''async-storage-action''),
       asyncStorageRequestSubscription = Some (Subscription ''request-async-storage''),
       networkMonitoringSubscription = Some (Subscription ''network-monitoring-action''),
       networkRequestSubscription = Some (Subscription ''request-network-monitoring''),
       expoCommandActionSubscription = Some (Subscription ''expo-command-action''),
       expoDevToolsRequestSubscription = Some (Subscription ''request-expo-devtools-status'') \<rparr>"

text \<open>
  The body of the \<^verbatim>\<open>useEffect\<close>: without a connection nothing is installed and there
  is no cleanup; with one, the listeners, the cache subscription and the configured
  interceptors are installed, in the order of the source.
\<close>

definition effect :: "config \<Rightarrow> socket_hook \<Rightarrow> world \<Rightarrow> handles option \<times> world" where
  "effect cfg sh w =
     (let w0 = checkVersion cfg w;
          w1 = (if w_prevConnected w0 \<noteq> sh_isConnected sh
                then (if \<not> sh_isConnected sh
                      then add_log cfg (logPrefix cfg @ '' Not connected to external dashboard'') LevelLog w0
                      else add_log cfg (deviceName cfg @ '' Connected to external dashboard'') LevelLog w0)
                     \<lparr>w_prevConnected := sh_isConnected sh\<rparr>
                else w0)
      in if \<not> sh_isConnected sh \<or> \<not> sh_socket sh then (None, w1)
         else
           (let w2 = socket_on ''query-action'' (socket_on ''online-manager''
                       (socket_on ''request-initial-state'' w1));
                w3 = w2\<lparr>w_cache_subscribed := True\<rparr>;
                w4 = socket_on ''request-async-storage'' (socket_on ''async-storage-action'' w3);
                w5 = initial_network_monitoring cfg w4;
                w6 = socket_on ''request-expo-devtools-status'' (socket_on ''expo-command-action''
                       (socket_on ''request-network-monitoring''
                         (socket_on ''network-monitoring-action'' w5)))
            in (Some installed_handles, w6)))"

text \<open>\<^verbatim>\<open>subscription?.off()\<close> and \<^verbatim>\<open>if (subscription) { subscription.off(); }\<close>\<close>

fun off :: "subscription option \<Rightarrow> world \<Rightarrow> world \<times> outcome" where
  "off None w = (w, Returns)"
| "off (Some (Subscription ev)) w = (w\<lparr>w_listeners := []\<rparr>, Returns)"
| "off (Some (FaultySubscription ev e)) w = (w, Throws e)"

fun call_unsubscribe :: "unsubscribe_fn \<Rightarrow> world \<Rightarrow> world \<times> outcome" where
  "call_unsubscribe Unsubscribe w = (w\<lparr>w_cache_subscribed := False\<rparr>, Returns)"
| "call_unsubscribe (FaultyUnsubscribe e) w = (w, Throws e)"

text \<open>
  The cleanup function the effect returns: the statements one after the other, with no
  \<^verbatim>\<open>try\<close> around any of them.
\<close>

definition cleanup :: "config \<Rightarrow> handles \<Rightarrow> world \<Rightarrow> world \<times> outcome" where
  "cleanup cfg hs w =
     and_then (and_then (and_then (and_then (and_then (and_then (and_then (and_then (and_then
     (and_then (and_then (and_then
       (off (queryActionSubscription hs)
          (add_log cfg (logPrefix cfg @ '' Cleaning up event listeners'') LevelLog w))
       (off (initialStateSubscription hs)))
       (off (onlineManagerSubscription hs)))
       (off (asyncStorageActionSubscription hs)))
       (off (asyncStorageRequestSubscription hs)))
       (off (networkMonitoringSubscription hs)))
       (off (networkRequestSubscription hs)))
       (off (expoCommandActionSubscription hs)))
       (off (expoDevToolsRequestSubscription hs)))
       (dispose_kind FetchTap))
       (dispose_kind XHRTap))
       (dispose_kind WebSocketTap))
       (call_unsubscribe (unsubscribe hs))"

section \<open>The hook and the package entry\<close>

record hook_result =
  hr_isConnected :: bool
  hr_socket :: bool
  hr_users :: "string list option"

text \<open>
  What \<^verbatim>\<open>trim()\<close> removes: the white space and the line terminators of the language.
  A string is held as its UTF-8 bytes, so these are the one-byte characters U+0009 to
  U+000D and U+0020, the two bytes of U+00A0, and the three bytes of U+1680, U+2000 to
  U+200A, U+2028, U+2029, U+202F, U+205F, U+3000 and U+FEFF.
\<close>

definition is_space :: "char \<Rightarrow> bool" where
  "is_space c = (c = CHR '' '' \<or> c = CHR 0x09 \<or> c = CHR 0x0A \<or> c = CHR 0x0B \<or> c = CHR 0x0C
     \<or> c = CHR 0x0D)"

definition is_space2 :: "char \<Rightarrow> char \<Rightarrow> bool" where
  "is_space2 a b = (a = CHR 0xC2 \<and> b = CHR 0xA0)"

definition is_space3 :: "char \<Rightarrow> char \<Rightarrow> char \<Rightarrow> bool" where
  "is_space3 a b c =
     ((a = CHR 0xE1 \<and> b = CHR 0x9A \<and> c = CHR 0x80)
      \<or> (a = CHR 0xE2 \<and> b = CHR 0x80
           \<and> (c \<in> set [CHR 0x80, CHR 0x81, CHR 0x82, CHR 0x83, CHR 0x84, CHR 0x85, CHR 0x86,
                          CHR 0x87, CHR 0x88, CHR 0x89, CHR 0x8A, CHR 0xA8, CHR 0xA9, CHR 0xAF]))
      \<or> (a = CHR 0xE2 \<and> b = CHR 0x81 \<and> c = CHR 0x9F)
      \<or> (a = CHR 0xE3 \<and> b = CHR 0x80 \<and> c = CHR 0x80)
      \<or> (a = CHR 0xEF \<and> b = CHR 0xBB \<and> c = CHR 0xBF))"

text \<open>\<^verbatim>\<open>!s.trim()\<close>: the string is empty or nothing but white space.\<close>

fun trims_to_empty :: "string \<Rightarrow> bool" where
  "trims_to_empty [] = True"
| "trims_to_empty [a] = is_space a"
| "trims_to_empty [a, b] = (if is_space a then is_space b else is_space2 a b)"
| "trims_to_empty (a # b # c # cs) =
     (if is_space a then trims_to_empty (b # c # cs)
      else if is_space2 a b then trims_to_empty (c # cs)
      else is_space3 a b c \<and> trims_to_empty cs)"

text \<open>
  \<^verbatim>\<open>useSyncQueriesExternal\<close>: an empty device id throws before anything is installed;
  then the effect runs. The result is what the hook returns, the cleanup's handles and
  the state after the effect.
\<close>

definition useSyncQueriesExternal ::
  "config \<Rightarrow> socket_hook \<Rightarrow> world \<Rightarrow> js_thrown + (hook_result \<times> handles option \<times> world)" where
  "useSyncQueriesExternal cfg sh w =
     (if trims_to_empty (deviceId cfg)
      then Inl (ErrorInstance ''Error'' (''['' @ deviceName cfg @ ''] deviceId is required and must not be empty. This ID must persist across app restarts, especially if you have multiple devices of the same type. If you only have one iOS and one Android device, you can use 'ios' and 'android'.''))
      else (let r = effect cfg sh w
            in Inr (\<lparr> hr_isConnected = sh_isConnected sh, hr_socket = sh_socket sh, hr_users = None \<rparr>,
                    fst r, snd r)))"

text \<open>
  index.ts: what the package exports, by \<^verbatim>\<open>process.env.NODE_ENV\<close> (\<open>None\<close> when it
  is not defined).
\<close>

definition exported_useSyncQueriesExternal ::
  "string option \<Rightarrow> config \<Rightarrow> socket_hook \<Rightarrow> world
     \<Rightarrow> js_thrown + (hook_result \<times> handles option \<times> world)" where
  "exported_useSyncQueriesExternal node_env cfg sh w =
     (if node_env \<noteq> Some ''production'' then useSyncQueriesExternal cfg sh w
      else Inr (\<lparr> hr_isConnected = False, hr_socket = False, hr_users = Some [] \<rparr>, None, w))"

definition exported_setExpoCommandImplementations ::
  "string option \<Rightarrow> implementation_map \<Rightarrow> implementations \<Rightarrow> implementations" where
  "exported_setExpoCommandImplementations node_env m t =
     (if node_env \<noteq> Some ''production'' then setExpoCommandImplementations m t else t)"

section \<open>Concrete inputs\<close>

text \<open>A device \<^verbatim>\<open>dev-A\<close> holding one successful query \<^verbatim>\<open>h1\<close>, with its handlers installed.\<close>

definition cfg_A :: config where
  "cfg_A = \<lparr> deviceName = ''phone'', deviceId = ''dev-A'', enableLogs = False,
             asyncStorage = None, networkMonitoring = None, queriesVersion = None \<rparr>"

definition query_h1 :: query where
  "query_h1 =
     \<lparr> q_queryHash = ''h1'', q_queryKey = [''todos''],
       q_options = \<lparr> opt_queryFn = AppQueryFn ''fetchTodos'', opt_gcTime = 300000 \<rparr>,
       q_state = \<lparr> qs_status = QuerySuccess, qs_data = Some ''d1'', qs_error = None,
                   qs_fetchStatus = Idle, qs_fetchMeta = None, qs_dataUpdatedAt = 1 \<rparr>,
       q_retryer = None, q_orphans = [] \<rparr>"

definition world_A :: world where
  "world_A =
     \<lparr> w_queries = [query_h1], w_mutations = [1], w_online = True, w_emitted = [], w_log = [],
       w_console = [], w_storage = [], w_removeFetchInterceptorRef = None,
       w_removeXHRInterceptorRef = None, w_removeWebSocketInterceptorRef = None, w_taps = [],
       w_installs = 0,
       w_listeners = [''request-initial-state'', ''online-manager'', ''query-action'',
         ''async-storage-action'', ''request-async-storage'', ''network-monitoring-action'',
         ''request-network-monitoring'', ''expo-command-action'', ''request-expo-devtools-status''],
       w_cache_subscribed = True, w_prevConnected = True, w_now = 1000 \<rparr>"

text \<open>A query client whose four operations leave the cache as it is.\<close>

definition keep_cache :: "query list \<Rightarrow> query list \<times> nat" where
  "keep_cache qs = (qs, 0)"

definition set_data_keep :: "string list \<Rightarrow> string option \<Rightarrow> nat \<Rightarrow> query list \<Rightarrow> query list \<times> nat" where
  "set_data_keep k d t = keep_cache"

definition filter_keep :: "query \<Rightarrow> query list \<Rightarrow> query list \<times> nat" where
  "filter_keep q = keep_cache"

definition inert_client :: query_client where
  "inert_client =
     \<lparr> qc_setQueryData = set_data_keep, qc_resetQueries = filter_keep,
       qc_removeQueries = filter_keep, qc_invalidateQueries = filter_keep \<rparr>"

definition query_message :: "query_action \<Rightarrow> string \<Rightarrow> string \<Rightarrow> query_action_message" where
  "query_message a h target =
     \<lparr> qa_queryHash = h, qa_queryKey = [''todos''], qa_data = None, qa_action = a,
       qa_targetDeviceId = target \<rparr>"

text \<open>The same device with a fetch tap and an XHR tap tracked; the fetch disposer throws.\<close>

definition world_faulty_fetch_disposer :: world where
  "world_faulty_fetch_disposer =
     world_A\<lparr> w_removeFetchInterceptorRef := Some (FaultyDisposer (NonError ''disposer failed'')),
              w_removeXHRInterceptorRef := Some (RemoveTap 1),
              w_taps := [(FetchTap, 0), (XHRTap, 1)], w_installs := 2 \<rparr>"

text \<open>The two network-monitoring messages, addressed to a target.\<close>

definition enable_message :: "string \<Rightarrow> network_monitoring_action_message" where
  "enable_message target =
     \<lparr> nma_action = ACTION_ENABLE_NETWORK_MONITORING, nma_targetDeviceId = target \<rparr>"

definition disable_message :: "string \<Rightarrow> network_monitoring_action_message" where
  "disable_message target =
     \<lparr> nma_action = ACTION_DISABLE_NETWORK_MONITORING, nma_targetDeviceId = target \<rparr>"

text \<open>The taps of one kind among those installed.\<close>

definition taps_of :: "interceptor_kind \<Rightarrow> world \<Rightarrow> (interceptor_kind \<times> nat) list" where
  "taps_of k w = filter (\<lambda>t. fst t = k) (w_taps w)"

text \<open>
  The subscriptions of the handles, in the order the cleanup removes them; a handle or a
  disposer is sound when calling it does not throw.
\<close>

definition subscriptions_of :: "handles \<Rightarrow> subscription option list" where
  "subscriptions_of hs =
     [queryActionSubscription hs, initialStateSubscription hs, onlineManagerSubscription hs,
      asyncStorageActionSubscription hs, asyncStorageRequestSubscription hs,
      networkMonitoringSubscription hs, networkRequestSubscription hs,
      expoCommandActionSubscription hs, expoDevToolsRequestSubscription hs]"

fun sound_subscription :: "subscription option \<Rightarrow> bool" where
  "sound_subscription (Some (FaultySubscription ev e)) = False"
| "sound_subscription (Some (Subscription ev)) = True"
| "sound_subscription None = True"

fun sound_disposer :: "disposer option \<Rightarrow> bool" where
  "sound_disposer (Some (FaultyDisposer e)) = False"
| "sound_disposer (Some (RemoveTap n)) = True"
| "sound_disposer None = True"

text \<open>The listeners left after \<^verbatim>\<open>off()\<close> of a sound subscription, and of several.\<close>

fun unlisten :: "subscription option \<Rightarrow> string list \<Rightarrow> string list" where
  "unlisten (Some (Subscription ev)) ls = []"
| "unlisten s ls = ls"

definition listeners_after :: "subscription option list \<Rightarrow> string list \<Rightarrow> string list" where
  "listeners_after ss ls = foldl (\<lambda>l s. unlisten s l) ls ss"

text \<open>
  The state once the cleanup has logged and taken these subscriptions off, none of them
  throwing.
\<close>

definition subscriptions_off :: "config \<Rightarrow> subscription option list \<Rightarrow> world \<Rightarrow> world" where
  "subscriptions_off cfg ss w =
     (add_log cfg (logPrefix cfg @ '' Cleaning up event listeners'') LevelLog w)
       \<lparr>w_listeners := listeners_after ss (w_listeners w)\<rparr>"

text \<open>
  The state once the tracked disposer of a kind, a sound one, has been called and its ref
  cleared.
\<close>

definition after_dispose :: "interceptor_kind \<Rightarrow> world \<Rightarrow> world" where
  "after_dispose k w =
     (case get_ref k w of
        Some (RemoveTap n) \<Rightarrow> set_ref k None (w\<lparr>w_taps := filter (\<lambda>t. snd t \<noteq> n) (w_taps w)\<rparr>)
      | Some (FaultyDisposer e) \<Rightarrow> w
      | None \<Rightarrow> w)"

text \<open>The device with a fetch tap and an XHR tap tracked by sound disposers.\<close>

definition world_monitored :: world where
  "world_monitored =
     world_A\<lparr> w_removeFetchInterceptorRef := Some (RemoveTap 0),
              w_removeXHRInterceptorRef := Some (RemoveTap 1),
              w_taps := [(FetchTap, 0), (XHRTap, 1)], w_installs := 2 \<rparr>"


section \<open>Theorems\<close>

text \<open>
  C4. For all strings targetDeviceId and currentDeviceId, shouldProcessMessage returns true
  if and only if targetDeviceId equals currentDeviceId or targetDeviceId equals "All"; for
  any other targetDeviceId it returns false.
\<close>

theorem shouldProcessMessage_iff:
  "(shouldProcessMessage targetDeviceId currentDeviceId
      \<longleftrightarrow> (targetDeviceId = currentDeviceId \<or> targetDeviceId = ''All''))
   \<and> shouldProcessMessage currentDeviceId currentDeviceId
   \<and> shouldProcessMessage ''All'' currentDeviceId
   \<and> (if targetDeviceId = currentDeviceId \<or> targetDeviceId = ''All''
      then shouldProcessMessage targetDeviceId currentDeviceId
      else \<not> shouldProcessMessage targetDeviceId currentDeviceId)"
  by (simp add: shouldProcessMessage_def)

subsection \<open>Helper facts on the command registry\<close>

lemma dispatch_type_name: "dispatch t (type_name c) = Some (slot c t)"
  by (cases c) (simp_all add: dispatch_def)

lemmas default_defs =
  default_implementations_def default_executeReload_def default_executeToggleInspector_def
  default_executeTogglePerformanceMonitor_def default_executeToggleElementInspector_def
  default_executeClearCache_def default_executeToggleRemoteDebugging_def
  default_executeOpenDevMenu_def default_executeTakeScreenshot_def default_executeShakeDevice_def

lemma default_notice:
  assumes "\<forall>m \<in> set (native_apis c g). m = None"
  shows "slot c default_implementations g = ([ConsoleLog (notice_text c)], Returns)"
  using assms by (cases c) (simp_all add: default_defs console_log_def notice_text_def)

lemma setter_in_notice: "sublist (setter_name c) (notice_text c)"
proof -
  have "notice_text c =
      (notice_subject c @ '' command received but no implementation found. Override with '')
        @ setter_name c @ ''() for custom behavior.''"
    by (simp add: notice_text_def)
  then show ?thesis by (simp only: sublist_appendI)
qed

subsection \<open>executeExpoCommand\<close>

text \<open>
  C1, as stated, fails, in three ways. An override whose promise never settles (a
  well-typed \<^verbatim>\<open>() => Promise<void>\<close>) is awaited for ever, and nothing is emitted. An
  override that rejects with a Symbol has its error result emitted, and then the template
  literal of the last log throws inside the \<^verbatim>\<open>catch\<close> block: the exception propagates to
  the caller. An override that rejects with an object without prototype makes
  \<^verbatim>\<open>String(error)\<close> throw before the emit: nothing is emitted and the exception
  propagates.
\<close>

theorem executeExpoCommand_never_settling_counterexample:
  "ex_emitted (executeExpoCommand (default_implementations\<lparr>executeReload := never_settling_impl\<rparr>)
       bare_global reload_command ''dev-A'' False) = []
   \<and> ex_completion (executeExpoCommand (default_implementations\<lparr>executeReload := never_settling_impl\<rparr>)
       bare_global reload_command ''dev-A'' False) = Hangs
   \<and> ex_emitted (executeExpoCommand (default_implementations\<lparr>executeReload := symbol_rejecting_impl\<rparr>)
       bare_global reload_command ''dev-A'' False)
     = [(''expo-command-result'', ExpoCommandResultMessage
          (reload_command\<lparr>cmd_status := StatusError, cmd_error := Some ''Symbol(tag)''\<rparr>) ''dev-A'')]
   \<and> ex_completion (executeExpoCommand (default_implementations\<lparr>executeReload := symbol_rejecting_impl\<rparr>)
       bare_global reload_command ''dev-A'' False)
     = Throws (ErrorInstance ''TypeError'' ''Cannot convert a Symbol value to a string'')
   \<and> ex_emitted (executeExpoCommand (default_implementations\<lparr>executeReload := object_rejecting_impl\<rparr>)
       bare_global reload_command ''dev-A'' False) = []
   \<and> ex_completion (executeExpoCommand (default_implementations\<lparr>executeReload := object_rejecting_impl\<rparr>)
       bare_global reload_command ''dev-A'' False)
     = Throws (ErrorInstance ''TypeError'' ''Cannot convert object to primitive value'')"
  by (simp add: executeExpoCommand_def run_command_def dispatch_def reload_command_def
      never_settling_impl_def symbol_rejecting_impl_def object_rejecting_impl_def
      null_prototype_object_def symbol_type_error_def primitive_type_error_def)

text \<open>
  C1 (amended). For every command message (any command type, unknown ones included) and
  every resolved implementation (default or override) whose promise settles and, when it
  rejects, rejects with a value that \<^verbatim>\<open>String()\<close> and a template literal both convert
  (an Error, or a value such as a string or a number), one invocation of
  executeExpoCommand emits exactly one expo-command-result message, with the original id
  and type and status success or error, and completes without an exception: a fulfilled
  implementation gives status success; a rejection is caught and its message put in the
  error field with status error; an unknown command type gives status error with the
  text "Unknown command type".
\<close>

theorem executeExpoCommand_emits_one_result:
  assumes "\<forall>f. dispatch t (cmd_type command) = Some f \<longrightarrow>
             snd (f g) \<noteq> Hangs \<and> (\<forall>e. snd (f g) = Throws e \<longrightarrow> converts e)"
  shows "ex_completion (executeExpoCommand t g command dev logs) = Returns
   \<and> (\<exists>c. ex_emitted (executeExpoCommand t g command dev logs)
            = [(''expo-command-result'', ExpoCommandResultMessage c dev)]
          \<and> cmd_id c = cmd_id command \<and> cmd_type c = cmd_type command
          \<and> (cmd_status c = StatusSuccess \<or> cmd_status c = StatusError))
   \<and> (\<forall>f e. dispatch t (cmd_type command) = Some f \<and> snd (f g) = Throws e \<longrightarrow>
         (\<exists>txt. error_text e = Inr txt
            \<and> ex_emitted (executeExpoCommand t g command dev logs)
                = [(''expo-command-result'', ExpoCommandResultMessage
                     (command\<lparr>cmd_status := StatusError, cmd_error := Some txt\<rparr>) dev)]))
   \<and> (\<forall>f. dispatch t (cmd_type command) = Some f \<and> snd (f g) = Returns \<longrightarrow>
         ex_emitted (executeExpoCommand t g command dev logs)
            = [(''expo-command-result'', ExpoCommandResultMessage
                 (command\<lparr>cmd_status := StatusSuccess\<rparr>) dev)])
   \<and> (dispatch t (cmd_type command) = None \<longrightarrow>
         ex_emitted (executeExpoCommand t g command dev logs)
            = [(''expo-command-result'', ExpoCommandResultMessage
                 (command\<lparr>cmd_status := StatusError,
                    cmd_error := Some (''Unknown command type: '' @ cmd_type command)\<rparr>) dev)])"
proof (cases "dispatch t (cmd_type command)")
  case None
  then show ?thesis by (simp add: executeExpoCommand_def run_command_def)
next
  case (Some f)
  with assms have settles: "snd (f g) \<noteq> Hangs"
    and conv: "\<And>e. snd (f g) = Throws e \<Longrightarrow> converts e" by simp_all
  show ?thesis
  proof (cases "snd (f g)")
    case Returns
    with Some show ?thesis by (simp add: executeExpoCommand_def run_command_def)
  next
    case (Throws e)
    from conv [OF Throws] obtain s1 s2
      where "error_text e = Inr s1" and "template_text e = Inr s2"
      by (cases "error_text e"; cases "template_text e") (simp_all add: converts_def)
    with Some Throws show ?thesis
      by (simp add: executeExpoCommand_def run_command_def Let_def)
  next
    case Hangs
    with settles show ?thesis by simp
  qed
qed

theorem executeExpoCommand_emits_one_result_witness:
  "ex_completion (executeExpoCommand (default_implementations\<lparr>executeReload := rejecting_impl\<rparr>)
       bare_global reload_command ''dev-A'' False) = Returns
   \<and> ex_emitted (executeExpoCommand (default_implementations\<lparr>executeReload := rejecting_impl\<rparr>)
       bare_global reload_command ''dev-A'' False)
     = [(''expo-command-result'', ExpoCommandResultMessage
          (reload_command\<lparr>cmd_status := StatusError, cmd_error := Some ''boom''\<rparr>) ''dev-A'')]
   \<and> ex_emitted (executeExpoCommand default_implementations bare_global
       (reload_command\<lparr>cmd_type := ''bogus''\<rparr>) ''dev-A'' False)
     = [(''expo-command-result'', ExpoCommandResultMessage
          (reload_command\<lparr>cmd_type := ''bogus'', cmd_status := StatusError,
             cmd_error := Some ''Unknown command type: bogus''\<rparr>) ''dev-A'')]"
  using executeExpoCommand_emits_one_result
          [of "default_implementations\<lparr>executeReload := rejecting_impl\<rparr>" reload_command
              bare_global "''dev-A''" False]
        executeExpoCommand_emits_one_result
          [of default_implementations "reload_command\<lparr>cmd_type := ''bogus''\<rparr>"
              bare_global "''dev-A''" False]
  by (simp add: dispatch_def reload_command_def rejecting_impl_def converts_def)

subsection \<open>The bulk setter\<close>

text \<open>
  C6. For every partial map passed to setExpoCommandImplementations, each command type
  whose key is supplied has its slot replaced by the supplied function, and every command
  type whose key is absent keeps its previous implementation; the switch of
  executeExpoCommand dispatches a command type to its slot, so the implementation run for a
  command is the supplied one or the previous one; and a single setter changes its own slot
  and no other.
\<close>

theorem setExpoCommandImplementations_per_key:
  "slot c (setExpoCommandImplementations m t)
      = (case map_key c m of Some f \<Rightarrow> f | None \<Rightarrow> slot c t)
   \<and> dispatch (setExpoCommandImplementations m t) (type_name c)
      = Some (case map_key c m of Some f \<Rightarrow> f | None \<Rightarrow> slot c t)
   \<and> run_command (setExpoCommandImplementations m t) g (type_name c)
      = (case map_key c m of Some f \<Rightarrow> f g | None \<Rightarrow> run_command t g (type_name c))
   \<and> slot c (setReloadImplementation f t) = (if c = Reload then f else slot c t)
   \<and> slot c (setToggleInspectorImplementation f t) = (if c = ToggleInspector then f else slot c t)
   \<and> slot c (setTogglePerformanceMonitorImplementation f t)
      = (if c = TogglePerformanceMonitor then f else slot c t)
   \<and> slot c (setToggleElementInspectorImplementation f t)
      = (if c = ToggleElementInspector then f else slot c t)
   \<and> slot c (setClearCacheImplementation f t) = (if c = ClearCache then f else slot c t)
   \<and> slot c (setToggleRemoteDebuggingImplementation f t)
      = (if c = ToggleRemoteDebugging then f else slot c t)
   \<and> slot c (setOpenDevMenuImplementation f t) = (if c = OpenDevMenu then f else slot c t)
   \<and> slot c (setTakeScreenshotImplementation f t) = (if c = TakeScreenshot then f else slot c t)
   \<and> slot c (setShakeDeviceImplementation f t) = (if c = ShakeDevice then f else slot c t)"
proof -
  have a: "slot c (setExpoCommandImplementations m t)
      = (case map_key c m of Some f \<Rightarrow> f | None \<Rightarrow> slot c t)"
    by (cases c) (simp_all add: setExpoCommandImplementations_def assign_if_def split: option.split)
  have b: "run_command (setExpoCommandImplementations m t) g (type_name c)
      = (case map_key c m of Some f \<Rightarrow> f g | None \<Rightarrow> run_command t g (type_name c))"
    by (simp add: run_command_def dispatch_type_name a split: option.split)
  have s: "slot c (setReloadImplementation f t) = (if c = Reload then f else slot c t)"
    "slot c (setToggleInspectorImplementation f t) = (if c = ToggleInspector then f else slot c t)"
    "slot c (setTogglePerformanceMonitorImplementation f t)
      = (if c = TogglePerformanceMonitor then f else slot c t)"
    "slot c (setToggleElementInspectorImplementation f t)
      = (if c = ToggleElementInspector then f else slot c t)"
    "slot c (setClearCacheImplementation f t) = (if c = ClearCache then f else slot c t)"
    "slot c (setToggleRemoteDebuggingImplementation f t)
      = (if c = ToggleRemoteDebugging then f else slot c t)"
    "slot c (setOpenDevMenuImplementation f t) = (if c = OpenDevMenu then f else slot c t)"
    "slot c (setTakeScreenshotImplementation f t) = (if c = TakeScreenshot then f else slot c t)"
    "slot c (setShakeDeviceImplementation f t) = (if c = ShakeDevice then f else slot c t)"
    by (cases c; simp add: setReloadImplementation_def setToggleInspectorImplementation_def
        setTogglePerformanceMonitorImplementation_def setToggleElementInspectorImplementation_def
        setClearCacheImplementation_def setToggleRemoteDebuggingImplementation_def
        setOpenDevMenuImplementation_def setTakeScreenshotImplementation_def
        setShakeDeviceImplementation_def)+
  show ?thesis using a b s by (simp add: dispatch_type_name)
qed

subsection \<open>Defaults with no native function\<close>

text \<open>
  C8. For every default command implementation, when no native function of its fallback
  chain is available in the runtime, the implementation writes one informational notice,
  which names the override setter, and returns successfully, so that executeExpoCommand
  with the defaults emits a result of status success.
\<close>

theorem default_without_native_api_succeeds:
  assumes "\<forall>m \<in> set (native_apis c g). m = None"
  shows "slot c default_implementations g = ([ConsoleLog (notice_text c)], Returns)
    \<and> sublist (setter_name c) (notice_text c)
    \<and> ex_emitted (executeExpoCommand default_implementations g
          (command\<lparr>cmd_type := type_name c\<rparr>) dev logs)
       = [(''expo-command-result'', ExpoCommandResultMessage
            (command\<lparr>cmd_type := type_name c, cmd_status := StatusSuccess\<rparr>) dev)]
    \<and> ex_completion (executeExpoCommand default_implementations g
          (command\<lparr>cmd_type := type_name c\<rparr>) dev logs) = Returns"
proof -
  have n: "slot c default_implementations g = ([ConsoleLog (notice_text c)], Returns)"
    by (rule default_notice [OF assms])
  have r: "run_command default_implementations g (type_name c)
      = ([ConsoleLog (notice_text c)], Returns)"
    by (simp add: run_command_def dispatch_type_name n)
  show ?thesis using n setter_in_notice [of c] by (simp add: executeExpoCommand_def r)
qed

theorem default_without_native_api_succeeds_witness:
  "slot TakeScreenshot default_implementations bare_global
      = ([ConsoleLog ''Take screenshot command received but no implementation found. Override with setTakeScreenshotImplementation() for custom behavior.''], Returns)
   \<and> slot Reload default_implementations bare_global
      = ([ConsoleLog ''Reload command received but no implementation found. Override with setReloadImplementation() for custom behavior.''], Returns)
   \<and> ex_emitted (executeExpoCommand default_implementations bare_global reload_command ''dev-A'' False)
      = [(''expo-command-result'', ExpoCommandResultMessage
           (reload_command\<lparr>cmd_status := StatusSuccess\<rparr>) ''dev-A'')]"
  using default_without_native_api_succeeds [of TakeScreenshot bare_global reload_command "''dev-A''" False]
        default_without_native_api_succeeds [of Reload bare_global reload_command "''dev-A''" False]
  by (simp add: bare_global_def rnScreenshot_takeScreenshot_def nativeModules_of_def
      require_react_native_def expo_method_def devSettings_method_def devMenu_method_def
      notice_text_def reload_command_def)

subsection \<open>Helper facts on the state\<close>

lemma add_log_fields [simp]:
  "w_queries (add_log cfg s l w) = w_queries w"
  "w_mutations (add_log cfg s l w) = w_mutations w"
  "w_online (add_log cfg s l w) = w_online w"
  "w_emitted (add_log cfg s l w) = w_emitted w"
  "w_cache_subscribed (add_log cfg s l w) = w_cache_subscribed w"
  "w_log (add_log cfg s l w) = w_log w @ [LogCall s (enableLogs cfg) l]"
  by (simp_all add: add_log_def)

lemma notify_fields [simp]:
  "w_queries (notify cfg w) = w_queries w"
  "w_mutations (notify cfg w) = w_mutations w"
  "w_online (notify cfg w) = w_online w"
  "w_cache_subscribed (notify cfg w) = w_cache_subscribed w"
  by (simp_all add: notify_def cache_change_callback_def add_log_def emit_def)

lemma notify_log [simp]: "deviceId cfg \<noteq> [] \<Longrightarrow> w_log (notify cfg w) = w_log w"
  by (simp add: notify_def cache_change_callback_def emit_def)

lemma notify_times_fields [simp]:
  "w_queries (notify_times n cfg w) = w_queries w"
  "w_mutations (notify_times n cfg w) = w_mutations w"
  "w_online (notify_times n cfg w) = w_online w"
  "w_cache_subscribed (notify_times n cfg w) = w_cache_subscribed w"
  by (induction n arbitrary: w) simp_all

lemma notify_times_log [simp]: "deviceId cfg \<noteq> [] \<Longrightarrow> w_log (notify_times n cfg w) = w_log w"
  by (induction n arbitrary: w) simp_all

lemma remove_each_fields:
  "w_queries (remove_each cfg qs w)
     = filter (\<lambda>x. q_queryHash x \<notin> q_queryHash ` set qs) (w_queries w)"
  "w_mutations (remove_each cfg qs w) = w_mutations w"
  "w_online (remove_each cfg qs w) = w_online w"
  "w_cache_subscribed (remove_each cfg qs w) = w_cache_subscribed w"
  "deviceId cfg \<noteq> [] \<Longrightarrow> w_log (remove_each cfg qs w) = w_log w"
  by (induction qs arbitrary: w; simp; metis)+

lemma queryCache_clear_fields [simp]:
  "w_queries (queryCache_clear cfg w) = []"
  "w_mutations (queryCache_clear cfg w) = w_mutations w"
  "w_online (queryCache_clear cfg w) = w_online w"
  "deviceId cfg \<noteq> [] \<Longrightarrow> w_log (queryCache_clear cfg w) = w_log w"
  by (simp_all add: queryCache_clear_def remove_each_fields)

lemma get_ref_add_log [simp]: "get_ref k (add_log cfg s l w) = get_ref k w"
  by (cases k) (simp_all add: add_log_def)

lemma add_log_other_fields [simp]:
  "w_taps (add_log cfg s l w) = w_taps w"
  "w_installs (add_log cfg s l w) = w_installs w"
  by (simp_all add: add_log_def)

lemma get_ref_set_ref [simp]: "get_ref k (set_ref k' d w) = (if k = k' then d else get_ref k w)"
  by (cases k; cases k') simp_all

lemma set_ref_fields [simp]:
  "w_taps (set_ref k d w) = w_taps w"
  "w_installs (set_ref k d w) = w_installs w"
  "w_log (set_ref k d w) = w_log w"
  by (cases k; simp)+

lemma setup_interceptor_eq: "setup_interceptor k = install_tap k"
  by (cases k) (simp_all add: setupFetchInterceptor_def setupXHRInterceptor_def
      setupWebSocketInterceptor_def)

lemma install_into_ref_fields:
  "get_ref k' (install_into_ref k w) = (if k' = k then Some (RemoveTap (w_installs w)) else get_ref k' w)"
  "w_taps (install_into_ref k w) = w_taps w @ [(k, w_installs w)]"
  "w_installs (install_into_ref k w) = Suc (w_installs w)"
  "w_log (install_into_ref k w) = w_log w"
  by (cases k; cases k'; simp add: install_into_ref_def setup_interceptor_eq install_tap_def)+

lemma enable_kind_tracked: "get_ref k w \<noteq> None \<Longrightarrow> enable_kind k w = w"
  by (auto simp add: enable_kind_def)

lemma enable_kind_ref:
  "get_ref k' (enable_kind k w)
     = (if k' = k \<and> get_ref k w = None then Some (RemoveTap (w_installs w)) else get_ref k' w)"
  by (simp add: enable_kind_def install_into_ref_fields)

lemma enable_kind_taps:
  "taps_of k' (enable_kind k w)
     = taps_of k' w @ (if k' = k \<and> get_ref k w = None then [(k, w_installs w)] else [])"
  by (auto simp add: enable_kind_def install_into_ref_fields taps_of_def)

lemma enable_kind_log [simp]: "w_log (enable_kind k w) = w_log w"
  by (simp add: enable_kind_def install_into_ref_fields)

lemma enable_all_refs:
  "get_ref k (enable_kind WebSocketTap (enable_kind XHRTap (enable_kind FetchTap w))) \<noteq> None"
  by (cases k) (simp_all add: enable_kind_ref)

lemma enable_all_tracked:
  assumes "\<And>k. get_ref k w \<noteq> None"
  shows "enable_kind WebSocketTap (enable_kind XHRTap (enable_kind FetchTap w)) = w"
proof -
  have "enable_kind FetchTap w = w" by (rule enable_kind_tracked) (rule assms)
  moreover have "enable_kind XHRTap w = w" by (rule enable_kind_tracked) (rule assms)
  moreover have "enable_kind WebSocketTap w = w" by (rule enable_kind_tracked) (rule assms)
  ultimately show ?thesis by simp
qed


lemma dispose_untracked: "get_ref k w = None \<Longrightarrow> dispose_kind k w = (w, Returns)"
  by (simp add: dispose_kind_def)

lemma and_then_simps [simp]:
  "and_then (w, Returns) f = f w"
  "and_then (w, Throws e) f = (w, Throws e)"
  by (simp_all add: and_then_def)

lemma off_sound: "sound_subscription s \<Longrightarrow> off s w = (w\<lparr>w_listeners := unlisten s (w_listeners w)\<rparr>, Returns)"
  by (induction s rule: sound_subscription.induct) simp_all

lemma set_unlisten: "set (unlisten s ls) \<subseteq> set ls"
  by (induction s ls rule: unlisten.induct) auto

lemma unlisten_removes: "ev \<notin> set (unlisten (Some (Subscription ev)) ls)"
  by simp

lemma foldl_unlisten_subset: "set (foldl (\<lambda>ls s. unlisten s ls) ls ss) \<subseteq> set ls"
proof (induction ss arbitrary: ls)
  case Nil
  show ?case by simp
next
  case (Cons s ss)
  have "set (foldl (\<lambda>ls s. unlisten s ls) (unlisten s ls) ss) \<subseteq> set (unlisten s ls)"
    by (rule Cons.IH)
  then show ?case using set_unlisten [of s ls] by auto
qed

lemma foldl_unlisten_removes:
  "Some (Subscription ev) \<in> set ss \<Longrightarrow> ev \<notin> set (foldl (\<lambda>ls s. unlisten s ls) ls ss)"
proof (induction ss arbitrary: ls)
  case Nil
  then show ?case by simp
next
  case (Cons s ss)
  show ?case
  proof (cases "s = Some (Subscription ev)")
    case True
    have "ev \<notin> set (unlisten s ls)" using True by simp
    then show ?thesis using foldl_unlisten_subset [of "unlisten s ls" ss] by auto
  next
    case False
    then have "Some (Subscription ev) \<in> set ss" using Cons.prems by simp
    then show ?thesis using Cons.IH by simp
  qed
qed

lemma cleanup_subscriptions:
  assumes "\<forall>s \<in> set (subscriptions_of hs). sound_subscription s"
  shows "cleanup cfg hs w =
     and_then (and_then (and_then (and_then
       ((add_log cfg (logPrefix cfg @ '' Cleaning up event listeners'') LevelLog w)
          \<lparr>w_listeners := foldl (\<lambda>ls s. unlisten s ls) (w_listeners w) (subscriptions_of hs)\<rparr>, Returns)
       (dispose_kind FetchTap))
       (dispose_kind XHRTap))
       (dispose_kind WebSocketTap))
       (call_unsubscribe (unsubscribe hs))"
  using assms
  by (simp add: cleanup_def subscriptions_of_def off_sound add_log_def)


lemma set_ref_more_fields [simp]:
  "w_listeners (set_ref k d w) = w_listeners w"
  "w_cache_subscribed (set_ref k d w) = w_cache_subscribed w"
  by (cases k; simp)+

lemma get_ref_other_updates [simp]:
  "get_ref k (w\<lparr>w_taps := ts\<rparr>) = get_ref k w"
  "get_ref k (w\<lparr>w_listeners := ls\<rparr>) = get_ref k w"
  "get_ref k (w\<lparr>w_cache_subscribed := b\<rparr>) = get_ref k w"
  by (cases k; simp)+

lemma dispose_kind_sound:
  assumes "sound_disposer (get_ref k w)"
  shows "snd (dispose_kind k w) = Returns"
    and "get_ref k' (fst (dispose_kind k w)) = (if k' = k then None else get_ref k' w)"
    and "set (w_taps (fst (dispose_kind k w))) \<subseteq> set (w_taps w)"
    and "get_ref k w = Some (RemoveTap n) \<Longrightarrow> n \<notin> snd ` set (w_taps (fst (dispose_kind k w)))"
    and "w_listeners (fst (dispose_kind k w)) = w_listeners w"
    and "w_cache_subscribed (fst (dispose_kind k w)) = w_cache_subscribed w"
proof -
  consider "get_ref k w = None" | i where "get_ref k w = Some (RemoveTap i)"
    using assms by (cases "get_ref k w" rule: sound_disposer.cases) simp_all
  then have "snd (dispose_kind k w) = Returns
    \<and> get_ref k' (fst (dispose_kind k w)) = (if k' = k then None else get_ref k' w)
    \<and> set (w_taps (fst (dispose_kind k w))) \<subseteq> set (w_taps w)
    \<and> (get_ref k w = Some (RemoveTap n) \<longrightarrow> n \<notin> snd ` set (w_taps (fst (dispose_kind k w))))
    \<and> w_listeners (fst (dispose_kind k w)) = w_listeners w
    \<and> w_cache_subscribed (fst (dispose_kind k w)) = w_cache_subscribed w"
    by cases (auto simp add: dispose_kind_def)
  then show "snd (dispose_kind k w) = Returns"
    and "get_ref k' (fst (dispose_kind k w)) = (if k' = k then None else get_ref k' w)"
    and "set (w_taps (fst (dispose_kind k w))) \<subseteq> set (w_taps w)"
    and "get_ref k w = Some (RemoveTap n) \<Longrightarrow> n \<notin> snd ` set (w_taps (fst (dispose_kind k w)))"
    and "w_listeners (fst (dispose_kind k w)) = w_listeners w"
    and "w_cache_subscribed (fst (dispose_kind k w)) = w_cache_subscribed w"
    by simp_all
qed

lemma dispose_kind_faulty:
  "get_ref k w = Some (FaultyDisposer e) \<Longrightarrow> dispose_kind k w = (w, Throws e)"
  by (simp add: dispose_kind_def)

lemma and_then_returns: "snd r = Returns \<Longrightarrow> and_then r f = f (fst r)"
  by (simp add: and_then_def)


lemma dispose_all_sound:
  assumes sd: "\<forall>k. sound_disposer (get_ref k w)"
  shows "snd (and_then (and_then (dispose_kind FetchTap w) (dispose_kind XHRTap))
            (dispose_kind WebSocketTap)) = Returns"
    and "get_ref k (fst (and_then (and_then (dispose_kind FetchTap w) (dispose_kind XHRTap))
            (dispose_kind WebSocketTap))) = None"
proof -
  define w1 where "w1 = fst (dispose_kind FetchTap w)"
  define w2 where "w2 = fst (dispose_kind XHRTap w1)"
  define w3 where "w3 = fst (dispose_kind WebSocketTap w2)"
  have s0: "sound_disposer (get_ref FetchTap w)" using sd [rule_format, of FetchTap] .
  note d1 = dispose_kind_sound [OF s0, folded w1_def]
  have s1: "sound_disposer (get_ref XHRTap w1)" using sd [rule_format, of XHRTap] by (simp add: d1(2))
  note d2 = dispose_kind_sound [OF s1, folded w2_def]
  have s2: "sound_disposer (get_ref WebSocketTap w2)"
    using sd [rule_format, of WebSocketTap] by (simp add: d2(2) d1(2))
  note d3 = dispose_kind_sound [OF s2, folded w3_def]
  have res: "and_then (and_then (dispose_kind FetchTap w) (dispose_kind XHRTap))
            (dispose_kind WebSocketTap) = (w3, Returns)"
    using d1(1) d2(1) d3(1)
    by (simp add: and_then_returns w1_def [symmetric] w2_def [symmetric] w3_def
        prod_eq_iff)
  show "snd (and_then (and_then (dispose_kind FetchTap w) (dispose_kind XHRTap))
            (dispose_kind WebSocketTap)) = Returns"
    by (simp add: res)
  show "get_ref k (fst (and_then (and_then (dispose_kind FetchTap w) (dispose_kind XHRTap))
            (dispose_kind WebSocketTap))) = None"
    unfolding res fst_conv by (cases k) (simp_all add: d3(2) d2(2) d1(2))
qed

lemma off_all_sound:
  "\<forall>s \<in> set ss. sound_subscription s \<Longrightarrow>
     foldl (\<lambda>r s. and_then r (off s)) (w, Returns) ss
       = (w\<lparr>w_listeners := listeners_after ss (w_listeners w)\<rparr>, Returns)"
proof (induction ss arbitrary: w)
  case Nil
  show ?case by (simp add: listeners_after_def)
next
  case (Cons s ss)
  then have s: "sound_subscription s" and rest: "\<forall>s \<in> set ss. sound_subscription s" by simp_all
  show ?case
    using Cons.IH [OF rest, of "w\<lparr>w_listeners := unlisten s (w_listeners w)\<rparr>"]
    by (simp add: off_sound [OF s] listeners_after_def)
qed

lemma off_all_thrown:
  "foldl (\<lambda>r s. and_then r (off s)) (w, Throws e) ss = (w, Throws e)"
  by (induction ss) simp_all

lemma off_all_faulty:
  assumes "\<forall>s \<in> set pre. sound_subscription s"
  shows "foldl (\<lambda>r s. and_then r (off s)) (w, Returns) (pre @ Some (FaultySubscription ev e) # post)
       = (w\<lparr>w_listeners := listeners_after pre (w_listeners w)\<rparr>, Throws e)"
  by (simp add: off_all_sound [OF assms] off_all_thrown)

lemma cleanup_as_fold:
  "cleanup cfg hs w =
     and_then (and_then (and_then (and_then
       (foldl (\<lambda>r s. and_then r (off s))
          (add_log cfg (logPrefix cfg @ '' Cleaning up event listeners'') LevelLog w, Returns)
          (subscriptions_of hs))
       (dispose_kind FetchTap))
       (dispose_kind XHRTap))
       (dispose_kind WebSocketTap))
       (call_unsubscribe (unsubscribe hs))"
  by (simp add: cleanup_def subscriptions_of_def)

lemma dispose_kind_sound_eq:
  "sound_disposer (get_ref k w) \<Longrightarrow> dispose_kind k w = (after_dispose k w, Returns)"
  by (cases "get_ref k w" rule: sound_disposer.cases)
     (simp_all add: dispose_kind_def after_dispose_def)

lemma get_ref_after_dispose:
  "get_ref k' (after_dispose k w)
     = (if k' = k \<and> sound_disposer (get_ref k w) then None else get_ref k' w)"
  by (cases "get_ref k w" rule: sound_disposer.cases)
     (auto simp add: after_dispose_def)

lemma after_dispose_fields [simp]:
  "w_listeners (after_dispose k w) = w_listeners w"
  "w_cache_subscribed (after_dispose k w) = w_cache_subscribed w"
  by (cases "get_ref k w" rule: sound_disposer.cases; simp add: after_dispose_def)+

lemma after_dispose_taps:
  "set (w_taps (after_dispose k w)) \<subseteq> set (w_taps w)"
  "get_ref k w = Some (RemoveTap n) \<Longrightarrow> n \<notin> snd ` set (w_taps (after_dispose k w))"
  by (cases "get_ref k w" rule: sound_disposer.cases; auto simp add: after_dispose_def)+

lemma get_ref_subscriptions_off [simp]: "get_ref k (subscriptions_off cfg ss w) = get_ref k w"
  by (simp add: subscriptions_off_def)

lemma subscriptions_off_fields [simp]:
  "w_taps (subscriptions_off cfg ss w) = w_taps w"
  "w_cache_subscribed (subscriptions_off cfg ss w) = w_cache_subscribed w"
  "w_listeners (subscriptions_off cfg ss w) = listeners_after ss (w_listeners w)"
  by (simp_all add: subscriptions_off_def)

lemma listeners_after_removes:
  "Some (Subscription ev) \<in> set ss \<Longrightarrow> ev \<notin> set (listeners_after ss ls)"
  unfolding listeners_after_def by (rule foldl_unlisten_removes)

subsection \<open>Targeting\<close>

text \<open>
  C3. For every inbound message whose targetDeviceId neither equals the current device's
  id nor equals "All", every handler (query-action, online-manager, async-storage,
  network-monitoring, expo-command) drops the message: nothing but the logger's record can
  differ afterwards (the cache, the online flag, the store, the interceptors and what was
  emitted are as before), and with a device id that is not empty, as the hook requires,
  the state is exactly as before.
\<close>

theorem untargeted_message_is_dropped:
  assumes "target \<noteq> deviceId cfg" and "target \<noteq> ''All''"
  shows "(on_query_action cfg qc (m\<lparr>qa_targetDeviceId := target\<rparr>) w)\<lparr>w_log := w_log w\<rparr> = w
       \<and> (on_online_manager cfg (om\<lparr>om_targetDeviceId := target\<rparr>) w)\<lparr>w_log := w_log w\<rparr> = w
       \<and> (fst (on_async_storage_action cfg (sa\<lparr>asa_targetDeviceId := target\<rparr>) w))
            \<lparr>w_log := w_log w\<rparr> = w
       \<and> snd (on_async_storage_action cfg (sa\<lparr>asa_targetDeviceId := target\<rparr>) w) = Returns
       \<and> (fst (on_request_async_storage cfg target w))\<lparr>w_log := w_log w\<rparr> = w
       \<and> snd (on_request_async_storage cfg target w) = Returns
       \<and> (fst (on_network_monitoring_action cfg (nm\<lparr>nma_targetDeviceId := target\<rparr>) w))
            \<lparr>w_log := w_log w\<rparr> = w
       \<and> snd (on_network_monitoring_action cfg (nm\<lparr>nma_targetDeviceId := target\<rparr>) w) = Returns
       \<and> (on_request_network_monitoring cfg target w)\<lparr>w_log := w_log w\<rparr> = w
       \<and> (fst (on_expo_command_action cfg t g (ec\<lparr>eca_targetDeviceId := target\<rparr>) w))
            \<lparr>w_log := w_log w\<rparr> = w
       \<and> snd (on_expo_command_action cfg t g (ec\<lparr>eca_targetDeviceId := target\<rparr>) w) = Returns
       \<and> (on_request_expo_devtools_status cfg target w)\<lparr>w_log := w_log w\<rparr> = w
       \<and> (deviceId cfg \<noteq> [] \<longrightarrow>
            on_query_action cfg qc (m\<lparr>qa_targetDeviceId := target\<rparr>) w = w
          \<and> on_online_manager cfg (om\<lparr>om_targetDeviceId := target\<rparr>) w = w
          \<and> on_async_storage_action cfg (sa\<lparr>asa_targetDeviceId := target\<rparr>) w = (w, Returns)
          \<and> on_request_async_storage cfg target w = (w, Returns)
          \<and> on_network_monitoring_action cfg (nm\<lparr>nma_targetDeviceId := target\<rparr>) w = (w, Returns)
          \<and> on_request_network_monitoring cfg target w = w
          \<and> on_expo_command_action cfg t g (ec\<lparr>eca_targetDeviceId := target\<rparr>) w = (w, Returns)
          \<and> on_request_expo_devtools_status cfg target w = w)"
  using assms
  by (simp add: on_query_action_def on_online_manager_def on_async_storage_action_def
      on_request_async_storage_def on_network_monitoring_action_def on_request_network_monitoring_def
      on_expo_command_action_def on_request_expo_devtools_status_def add_log_def
      shouldProcessMessage_def)

theorem untargeted_message_is_dropped_witness:
  "on_query_action cfg_A inert_client (query_message ACTION_REMOVE ''h1'' ''dev-B'') world_A = world_A
   \<and> on_network_monitoring_action cfg_A (enable_message ''dev-B'') world_A = (world_A, Returns)
   \<and> on_expo_command_action cfg_A default_implementations bare_global
        \<lparr> eca_command = ''reload'', eca_targetDeviceId = ''dev-B'', eca_commandId = ''c-1'' \<rparr> world_A
      = (world_A, Returns)
   \<and> on_request_async_storage cfg_A ''dev-B'' world_A = (world_A, Returns)"
  using untargeted_message_is_dropped
    [where target = "''dev-B''" and cfg = cfg_A and w = world_A and qc = inert_client
       and m = "query_message ACTION_REMOVE ''h1'' ''dev-B''" and nm = "enable_message ''dev-B''"
       and t = default_implementations and g = bare_global
       and ec = "\<lparr> eca_command = ''reload'', eca_targetDeviceId = ''dev-B'', eca_commandId = ''c-1'' \<rparr>"]
  by (simp add: cfg_A_def shouldProcessMessage_def query_message_def enable_message_def)

subsection \<open>Clearing the caches and a missing query\<close>

text \<open>
  C7. When a query-action message passes the targeting check: ACTION-CLEAR-MUTATION-CACHE
  empties the mutation cache and ACTION-CLEAR-QUERY-CACHE empties the query cache, and the
  handler returns with no lookup of the query hash (the outcome does not depend on whether
  the hash is in the cache, and no "not found" is logged); for every other action, when no
  query has the hash, the action is logged and dropped: the caches and everything else but
  the log are unchanged, and nothing is emitted to the sender.
\<close>

theorem query_action_clear_or_missing:
  assumes "shouldProcessMessage (qa_targetDeviceId m) (deviceId cfg)" and "deviceId cfg \<noteq> []"
  shows "(qa_action m = ACTION_CLEAR_MUTATION_CACHE \<longrightarrow>
            on_query_action cfg qc m w =
              w\<lparr> w_mutations := [],
                 w_log := w_log w @
                   [LogCall (logPrefix cfg @ '' Received query action: ACTION-CLEAR-MUTATION-CACHE for query '' @ qa_queryHash m) (enableLogs cfg) LevelLog,
                    LogCall (logPrefix cfg @ '' Cleared mutation cache'') (enableLogs cfg) LevelLog] \<rparr>)
       \<and> (qa_action m = ACTION_CLEAR_QUERY_CACHE \<longrightarrow>
            w_queries (on_query_action cfg qc m w) = []
          \<and> w_mutations (on_query_action cfg qc m w) = w_mutations w
          \<and> w_log (on_query_action cfg qc m w) = w_log w @
                   [LogCall (logPrefix cfg @ '' Received query action: ACTION-CLEAR-QUERY-CACHE for query '' @ qa_queryHash m) (enableLogs cfg) LevelLog,
                    LogCall (logPrefix cfg @ '' Cleared query cache'') (enableLogs cfg) LevelLog])
       \<and> (qa_action m \<noteq> ACTION_CLEAR_MUTATION_CACHE \<and> qa_action m \<noteq> ACTION_CLEAR_QUERY_CACHE
            \<and> cache_get (qa_queryHash m) (w_queries w) = None \<longrightarrow>
            on_query_action cfg qc m w =
              w\<lparr> w_log := w_log w @
                   [LogCall (logPrefix cfg @ '' Received query action: '' @ action_name (qa_action m) @ '' for query '' @ qa_queryHash m) (enableLogs cfg) LevelLog,
                    LogCall (logPrefix cfg @ '' Query with hash '' @ qa_queryHash m @ '' not found'') (enableLogs cfg) LevelWarn] \<rparr>)"
proof -
  have a: "qa_action m = ACTION_CLEAR_MUTATION_CACHE \<Longrightarrow>
            on_query_action cfg qc m w =
              w\<lparr> w_mutations := [],
                 w_log := w_log w @
                   [LogCall (logPrefix cfg @ '' Received query action: ACTION-CLEAR-MUTATION-CACHE for query '' @ qa_queryHash m) (enableLogs cfg) LevelLog,
                    LogCall (logPrefix cfg @ '' Cleared mutation cache'') (enableLogs cfg) LevelLog] \<rparr>"
    using assms by (simp add: on_query_action_def mutationCache_clear_def add_log_def)
  have b: "qa_action m = ACTION_CLEAR_QUERY_CACHE \<Longrightarrow>
            w_queries (on_query_action cfg qc m w) = []
          \<and> w_mutations (on_query_action cfg qc m w) = w_mutations w
          \<and> w_log (on_query_action cfg qc m w) = w_log w @
                   [LogCall (logPrefix cfg @ '' Received query action: ACTION-CLEAR-QUERY-CACHE for query '' @ qa_queryHash m) (enableLogs cfg) LevelLog,
                    LogCall (logPrefix cfg @ '' Cleared query cache'') (enableLogs cfg) LevelLog]"
    using assms by (simp add: on_query_action_def)
  have c: "qa_action m \<noteq> ACTION_CLEAR_MUTATION_CACHE \<Longrightarrow> qa_action m \<noteq> ACTION_CLEAR_QUERY_CACHE
            \<Longrightarrow> cache_get (qa_queryHash m) (w_queries w) = None \<Longrightarrow>
            on_query_action cfg qc m w =
              w\<lparr> w_log := w_log w @
                   [LogCall (logPrefix cfg @ '' Received query action: '' @ action_name (qa_action m) @ '' for query '' @ qa_queryHash m) (enableLogs cfg) LevelLog,
                    LogCall (logPrefix cfg @ '' Query with hash '' @ qa_queryHash m @ '' not found'') (enableLogs cfg) LevelWarn] \<rparr>"
    using assms by (simp add: on_query_action_def add_log_def)
  show ?thesis using a b c by blast
qed

theorem query_action_clear_or_missing_witness:
  "on_query_action cfg_A inert_client (query_message ACTION_REMOVE ''h2'' ''dev-A'') world_A
     = world_A\<lparr> w_log :=
          [LogCall ''[phone] Received query action: ACTION-REMOVE for query h2'' False LevelLog,
           LogCall ''[phone] Query with hash h2 not found'' False LevelWarn] \<rparr>
   \<and> w_queries (on_query_action cfg_A inert_client
        (query_message ACTION_CLEAR_QUERY_CACHE ''h2'' ''All'') world_A) = []
   \<and> w_mutations (on_query_action cfg_A inert_client
        (query_message ACTION_CLEAR_MUTATION_CACHE ''h2'' ''All'') world_A) = []"
  using query_action_clear_or_missing
          [of "query_message ACTION_REMOVE ''h2'' ''dev-A''" cfg_A inert_client world_A]
        query_action_clear_or_missing
          [of "query_message ACTION_CLEAR_QUERY_CACHE ''h2'' ''All''" cfg_A inert_client world_A]
        query_action_clear_or_missing
          [of "query_message ACTION_CLEAR_MUTATION_CACHE ''h2'' ''All''" cfg_A inert_client world_A]
  by (simp add: query_message_def cfg_A_def shouldProcessMessage_def world_A_def cache_get_def
      query_h1_def logPrefix_def)

subsection \<open>Enabling and disabling network monitoring\<close>

text \<open>
  C5. Handling ACTION-ENABLE-NETWORK-MONITORING is idempotent: after one enable every kind
  (fetch, XHR, WebSocket) has a tracked disposer, one tap having been installed for each
  kind that had none; a second enable in succession installs nothing and changes nothing
  but the log. Handling ACTION-DISABLE-NETWORK-MONITORING is a no-op for a kind with no
  tracked disposer and raises no exception there; with none of the three tracked the whole
  handler only logs and returns, and with tracked disposers that do not throw it returns
  with every ref cleared.
\<close>

theorem network_monitoring_enable_idempotent:
  assumes "shouldProcessMessage target (deviceId cfg)" and "deviceId cfg \<noteq> []"
  shows "snd (on_network_monitoring_action cfg (enable_message target) w) = Returns
    \<and> (\<forall>k. get_ref k (fst (on_network_monitoring_action cfg (enable_message target) w)) \<noteq> None)
    \<and> (\<forall>k. length (taps_of k (fst (on_network_monitoring_action cfg (enable_message target) w)))
            = length (taps_of k w) + (if get_ref k w = None then 1 else 0))
    \<and> on_network_monitoring_action cfg (enable_message target)
          (fst (on_network_monitoring_action cfg (enable_message target) w))
       = ((fst (on_network_monitoring_action cfg (enable_message target) w))
            \<lparr>w_log := w_log (fst (on_network_monitoring_action cfg (enable_message target) w)) @
               [LogCall (logPrefix cfg @ '' Received network-monitoring action: ACTION-ENABLE-NETWORK-MONITORING'') (enableLogs cfg) LevelLog,
                LogCall (logPrefix cfg @ '' Enabling network monitoring'') (enableLogs cfg) LevelLog]\<rparr>,
          Returns)
    \<and> (\<forall>k. get_ref k w = None \<longrightarrow> dispose_kind k w = (w, Returns))
    \<and> ((\<forall>k. get_ref k w = None) \<longrightarrow>
         on_network_monitoring_action cfg (disable_message target) w
           = (w\<lparr>w_log := w_log w @
               [LogCall (logPrefix cfg @ '' Received network-monitoring action: ACTION-DISABLE-NETWORK-MONITORING'') (enableLogs cfg) LevelLog,
                LogCall (logPrefix cfg @ '' Disabling network monitoring'') (enableLogs cfg) LevelLog]\<rparr>,
              Returns))
    \<and> ((\<forall>k. sound_disposer (get_ref k w)) \<longrightarrow>
         snd (on_network_monitoring_action cfg (disable_message target) w) = Returns
       \<and> (\<forall>k. get_ref k (fst (on_network_monitoring_action cfg (disable_message target) w)) = None))"
proof -
  define L where "L = (\<lambda>w. add_log cfg (logPrefix cfg @ '' Enabling network monitoring'') LevelLog
      (add_log cfg (logPrefix cfg @ '' Received network-monitoring action: ACTION-ENABLE-NETWORK-MONITORING'') LevelLog w))"
  define E where "E = (\<lambda>w. enable_kind WebSocketTap (enable_kind XHRTap (enable_kind FetchTap (L w))))"
  have on: "\<And>w. on_network_monitoring_action cfg (enable_message target) w = (E w, Returns)"
    using assms
    by (simp add: on_network_monitoring_action_def enable_message_def enable_network_monitoring_def
        E_def L_def)
  have refs: "\<And>k. get_ref k (E w) \<noteq> None" unfolding E_def by (rule enable_all_refs)
  have taps: "\<And>k. length (taps_of k (E w))
            = length (taps_of k w) + (if get_ref k w = None then 1 else 0)"
  proof -
    fix k
    have "taps_of k (L w) = taps_of k w" by (simp add: taps_of_def L_def)
    moreover have "\<And>k. get_ref k (L w) = get_ref k w" by (simp add: L_def)
    ultimately show "length (taps_of k (E w))
            = length (taps_of k w) + (if get_ref k w = None then 1 else 0)"
      unfolding E_def by (cases k) (simp_all add: enable_kind_taps enable_kind_ref)
  qed
  have "\<And>k. get_ref k (L (E w)) \<noteq> None" using refs by (simp add: L_def)
  then have "enable_kind WebSocketTap (enable_kind XHRTap (enable_kind FetchTap (L (E w)))) = L (E w)"
    by (rule enable_all_tracked)
  moreover have "\<And>x. E x = enable_kind WebSocketTap (enable_kind XHRTap (enable_kind FetchTap (L x)))"
    by (simp add: E_def)
  ultimately have "E (E w) = L (E w)" by simp
  also have "\<dots> = (E w)\<lparr>w_log := w_log (E w) @
               [LogCall (logPrefix cfg @ '' Received network-monitoring action: ACTION-ENABLE-NETWORK-MONITORING'') (enableLogs cfg) LevelLog,
                LogCall (logPrefix cfg @ '' Enabling network monitoring'') (enableLogs cfg) LevelLog]\<rparr>"
    by (simp add: L_def add_log_def)
  finally have again: "E (E w) = (E w)\<lparr>w_log := w_log (E w) @
               [LogCall (logPrefix cfg @ '' Received network-monitoring action: ACTION-ENABLE-NETWORK-MONITORING'') (enableLogs cfg) LevelLog,
                LogCall (logPrefix cfg @ '' Enabling network monitoring'') (enableLogs cfg) LevelLog]\<rparr>" .
  have dis: "(\<forall>k. get_ref k w = None) \<Longrightarrow>
         on_network_monitoring_action cfg (disable_message target) w
           = (w\<lparr>w_log := w_log w @
               [LogCall (logPrefix cfg @ '' Received network-monitoring action: ACTION-DISABLE-NETWORK-MONITORING'') (enableLogs cfg) LevelLog,
                LogCall (logPrefix cfg @ '' Disabling network monitoring'') (enableLogs cfg) LevelLog]\<rparr>,
              Returns)"
  proof -
    assume none: "\<forall>k. get_ref k w = None"
    let ?D = "add_log cfg (logPrefix cfg @ '' Disabling network monitoring'') LevelLog
      (add_log cfg (logPrefix cfg @ '' Received network-monitoring action: ACTION-DISABLE-NETWORK-MONITORING'') LevelLog w)"
    have "\<And>k. dispose_kind k ?D = (?D, Returns)"
      using none by (simp add: dispose_untracked)
    then have "disable_network_monitoring cfg
        (add_log cfg (logPrefix cfg @ '' Received network-monitoring action: ACTION-DISABLE-NETWORK-MONITORING'') LevelLog w)
        = (?D, Returns)"
      by (simp add: disable_network_monitoring_def and_then_def)
    then show ?thesis
      using assms
      by (simp add: on_network_monitoring_action_def disable_message_def add_log_def)
  qed
  have sound: "(\<forall>k. sound_disposer (get_ref k w)) \<Longrightarrow>
         snd (on_network_monitoring_action cfg (disable_message target) w) = Returns
       \<and> (\<forall>k. get_ref k (fst (on_network_monitoring_action cfg (disable_message target) w)) = None)"
  proof -
    assume sd: "\<forall>k. sound_disposer (get_ref k w)"
    define D where "D = add_log cfg (logPrefix cfg @ '' Disabling network monitoring'') LevelLog
      (add_log cfg (logPrefix cfg @ '' Received network-monitoring action: ACTION-DISABLE-NETWORK-MONITORING'') LevelLog w)"
    have "\<forall>k. sound_disposer (get_ref k D)" using sd by (simp add: D_def)
    note all = dispose_all_sound [OF this]
    have "on_network_monitoring_action cfg (disable_message target) w
        = and_then (and_then (dispose_kind FetchTap D) (dispose_kind XHRTap)) (dispose_kind WebSocketTap)"
      using assms
      by (simp add: on_network_monitoring_action_def disable_message_def
          disable_network_monitoring_def D_def)
    then show ?thesis using all by simp
  qed
  show ?thesis
    unfolding on fst_conv snd_conv again
    using refs taps dis sound dispose_untracked by blast
qed

theorem network_monitoring_enable_idempotent_witness:
  "w_taps (fst (on_network_monitoring_action cfg_A (enable_message ''All'') world_A))
     = [(FetchTap, 0), (XHRTap, 1), (WebSocketTap, 2)]
   \<and> w_taps (fst (on_network_monitoring_action cfg_A (enable_message ''All'')
        (fst (on_network_monitoring_action cfg_A (enable_message ''All'') world_A))))
     = [(FetchTap, 0), (XHRTap, 1), (WebSocketTap, 2)]
   \<and> snd (on_network_monitoring_action cfg_A (disable_message ''All'') world_A) = Returns
   \<and> w_taps (fst (on_network_monitoring_action cfg_A (disable_message ''All'') world_A)) = []"
  using network_monitoring_enable_idempotent [of "''All''" cfg_A world_A]
  by (simp add: cfg_A_def world_A_def shouldProcessMessage_def on_network_monitoring_action_def
      enable_message_def disable_message_def enable_network_monitoring_def
      disable_network_monitoring_def enable_kind_def install_into_ref_def
      setupFetchInterceptor_def setupXHRInterceptor_def setupWebSocketInterceptor_def
      install_tap_def dispose_kind_def and_then_def add_log_def)

subsection \<open>The package entry in production\<close>

text \<open>
  C10. When NODE_ENV equals "production", the exported useSyncQueriesExternal is a no-op:
  it changes nothing (no listener, no interceptor, no connection log, no validation
  error), installs no cleanup, and returns isConnected false with a null socket; the
  exported setExpoCommandImplementations overrides nothing. With any other NODE_ENV the
  exports are the real hook and the real setter.
\<close>

theorem production_exports_are_noops:
  "exported_useSyncQueriesExternal (Some ''production'') cfg sh w
     = Inr (\<lparr> hr_isConnected = False, hr_socket = False, hr_users = Some [] \<rparr>, None, w)
   \<and> exported_setExpoCommandImplementations (Some ''production'') m t = t
   \<and> dispatch (exported_setExpoCommandImplementations (Some ''production'') m t) ty = dispatch t ty
   \<and> exported_useSyncQueriesExternal node_env cfg sh w
       = (if node_env = Some ''production''
          then Inr (\<lparr> hr_isConnected = False, hr_socket = False, hr_users = Some [] \<rparr>, None, w)
          else useSyncQueriesExternal cfg sh w)
   \<and> exported_setExpoCommandImplementations node_env m t
       = (if node_env = Some ''production'' then t else setExpoCommandImplementations m t)"
  by (simp add: exported_useSyncQueriesExternal_def exported_setExpoCommandImplementations_def)

subsection \<open>Teardown\<close>

text \<open>
  C9, as stated, fails: the cleanup has no \<^verbatim>\<open>try\<close> around its steps. With a fetch
  disposer that throws, the XHR disposer is not called (its tap stays, its ref stays) and
  the cache subscription is not removed.
\<close>

theorem cleanup_throwing_disposer_counterexample:
  "snd (cleanup cfg_A installed_handles world_faulty_fetch_disposer)
     = Throws (NonError ''disposer failed'')
   \<and> w_removeXHRInterceptorRef (fst (cleanup cfg_A installed_handles world_faulty_fetch_disposer))
     = Some (RemoveTap 1)
   \<and> w_taps (fst (cleanup cfg_A installed_handles world_faulty_fetch_disposer))
     = [(FetchTap, 0), (XHRTap, 1)]
   \<and> w_cache_subscribed (fst (cleanup cfg_A installed_handles world_faulty_fetch_disposer))"
  by (simp add: cleanup_def installed_handles_def world_faulty_fetch_disposer_def world_A_def
      dispose_kind_def add_log_def)

text \<open>
  C9 (amended). The cleanup run on disconnect or unmount is one pass over its steps, in
  this order: the \<^verbatim>\<open>off()\<close> of each socket subscription that is set (query-action,
  request-initial-state, online-manager, async-storage-action, request-async-storage,
  network-monitoring-action, request-network-monitoring, expo-command-action,
  request-expo-devtools-status), then the fetch, the XHR and the WebSocket interceptor
  disposer, each called when its ref is set and its ref cleared after the call, then the
  unsubscribe of the cache subscription. When none of these calls throws, the cleanup
  returns with the listeners of every installed subscription removed, every tracked tap
  disposed, every ref cleared and the cache subscription removed. The steps are not
  isolated from each other: the first call that throws, be it the \<^verbatim>\<open>off()\<close> of any
  subscription, any of the three disposers or the cache unsubscribe, ends the cleanup with
  that exception; the steps before it have taken effect, the ref of a throwing disposer
  stays set, and no step after it is attempted.
\<close>

theorem cleanup_in_one_pass:
  "(\<forall>pre ev e post.
       subscriptions_of hs = pre @ Some (FaultySubscription ev e) # post
       \<and> (\<forall>s \<in> set pre. sound_subscription s)
       \<longrightarrow> cleanup cfg hs w = (subscriptions_off cfg pre w, Throws e))
   \<and> ((\<forall>s \<in> set (subscriptions_of hs). sound_subscription s) \<longrightarrow>
        (\<forall>e. get_ref FetchTap w = Some (FaultyDisposer e)
           \<longrightarrow> cleanup cfg hs w = (subscriptions_off cfg (subscriptions_of hs) w, Throws e))
      \<and> (\<forall>e. sound_disposer (get_ref FetchTap w) \<and> get_ref XHRTap w = Some (FaultyDisposer e)
           \<longrightarrow> cleanup cfg hs w
                 = (after_dispose FetchTap (subscriptions_off cfg (subscriptions_of hs) w), Throws e))
      \<and> (\<forall>e. sound_disposer (get_ref FetchTap w) \<and> sound_disposer (get_ref XHRTap w)
              \<and> get_ref WebSocketTap w = Some (FaultyDisposer e)
           \<longrightarrow> cleanup cfg hs w
                 = (after_dispose XHRTap (after_dispose FetchTap
                      (subscriptions_off cfg (subscriptions_of hs) w)), Throws e))
      \<and> (\<forall>e. (\<forall>k. sound_disposer (get_ref k w)) \<and> unsubscribe hs = FaultyUnsubscribe e
           \<longrightarrow> cleanup cfg hs w
                 = (after_dispose WebSocketTap (after_dispose XHRTap (after_dispose FetchTap
                      (subscriptions_off cfg (subscriptions_of hs) w))), Throws e))
      \<and> ((\<forall>k. sound_disposer (get_ref k w)) \<and> unsubscribe hs = Unsubscribe
           \<longrightarrow> cleanup cfg hs w
                 = ((after_dispose WebSocketTap (after_dispose XHRTap (after_dispose FetchTap
                      (subscriptions_off cfg (subscriptions_of hs) w))))
                      \<lparr>w_cache_subscribed := False\<rparr>, Returns)
             \<and> (\<forall>ev. Some (Subscription ev) \<in> set (subscriptions_of hs)
                   \<longrightarrow> ev \<notin> set (w_listeners (fst (cleanup cfg hs w))))
             \<and> (\<forall>k. get_ref k (fst (cleanup cfg hs w)) = None)
             \<and> (\<forall>k n. get_ref k w = Some (RemoveTap n)
                   \<longrightarrow> n \<notin> snd ` set (w_taps (fst (cleanup cfg hs w))))
             \<and> \<not> w_cache_subscribed (fst (cleanup cfg hs w))))"
proof -
  define w0 where "w0 = add_log cfg (logPrefix cfg @ '' Cleaning up event listeners'') LevelLog w"
  have off_w0: "\<And>ss. w0\<lparr>w_listeners := listeners_after ss (w_listeners w0)\<rparr> = subscriptions_off cfg ss w"
    by (simp add: w0_def subscriptions_off_def add_log_def)
  have cl: "cleanup cfg hs w =
     and_then (and_then (and_then (and_then
       (foldl (\<lambda>r s. and_then r (off s)) (w0, Returns) (subscriptions_of hs))
       (dispose_kind FetchTap)) (dispose_kind XHRTap)) (dispose_kind WebSocketTap))
       (call_unsubscribe (unsubscribe hs))"
    unfolding w0_def by (rule cleanup_as_fold)
  have faulty_sub: "cleanup cfg hs w = (subscriptions_off cfg pre w, Throws e)"
    if "subscriptions_of hs = pre @ Some (FaultySubscription ev e) # post"
      and "\<forall>s \<in> set pre. sound_subscription s" for pre ev e post
  proof -
    have "foldl (\<lambda>r s. and_then r (off s)) (w0, Returns) (subscriptions_of hs)
            = (subscriptions_off cfg pre w, Throws e)"
      using off_all_faulty [OF that(2), of w0 ev e post] by (simp only: that(1) off_w0)
    then show ?thesis by (simp add: cl)
  qed
  define w1 where "w1 = subscriptions_off cfg (subscriptions_of hs) w"
  define w2 where "w2 = after_dispose FetchTap w1"
  define w3 where "w3 = after_dispose XHRTap w2"
  define w4 where "w4 = after_dispose WebSocketTap w3"
  have r1 [simp]: "\<And>k. get_ref k w1 = get_ref k w" by (simp add: w1_def)
  have r2: "\<And>k. get_ref k w2 = (if k = FetchTap \<and> sound_disposer (get_ref FetchTap w) then None else get_ref k w)"
    by (simp add: w2_def get_ref_after_dispose)
  have r3: "\<And>k. get_ref k w3 = (if k = XHRTap \<and> sound_disposer (get_ref XHRTap w2) then None else get_ref k w2)"
    by (simp add: w3_def get_ref_after_dispose)
  have r4: "\<And>k. get_ref k w4 = (if k = WebSocketTap \<and> sound_disposer (get_ref WebSocketTap w3) then None else get_ref k w3)"
    by (simp add: w4_def get_ref_after_dispose)
  have sound_part: ?thesis if subs: "\<forall>s \<in> set (subscriptions_of hs). sound_subscription s"
  proof -
    have cl1: "cleanup cfg hs w =
       and_then (and_then (and_then (dispose_kind FetchTap w1)
         (dispose_kind XHRTap)) (dispose_kind WebSocketTap))
         (call_unsubscribe (unsubscribe hs))"
      by (simp add: cl off_all_sound [OF subs] off_w0 w1_def)
    have b1: "cleanup cfg hs w = (w1, Throws e)" if "get_ref FetchTap w = Some (FaultyDisposer e)" for e
      using that by (simp add: cl1 dispose_kind_faulty)
    have b2: "cleanup cfg hs w = (w2, Throws e)"
      if "sound_disposer (get_ref FetchTap w)" "get_ref XHRTap w = Some (FaultyDisposer e)" for e
      using that by (simp add: cl1 dispose_kind_sound_eq dispose_kind_faulty r2 w2_def [symmetric])
    have b3: "cleanup cfg hs w = (w3, Throws e)"
      if "sound_disposer (get_ref FetchTap w)" "sound_disposer (get_ref XHRTap w)"
         "get_ref WebSocketTap w = Some (FaultyDisposer e)" for e
      using that
      by (simp add: cl1 dispose_kind_sound_eq dispose_kind_faulty r2 r3
          w2_def [symmetric] w3_def [symmetric])
    have all4: "and_then (and_then (dispose_kind FetchTap w1) (dispose_kind XHRTap))
         (dispose_kind WebSocketTap) = (w4, Returns)"
      if sd: "\<forall>k. sound_disposer (get_ref k w)"
      using sd [rule_format, of FetchTap] sd [rule_format, of XHRTap] sd [rule_format, of WebSocketTap]
      by (simp add: dispose_kind_sound_eq r2 r3
          w2_def [symmetric] w3_def [symmetric] w4_def [symmetric])
    have b4: "cleanup cfg hs w = (w4, Throws e)"
      if "\<forall>k. sound_disposer (get_ref k w)" "unsubscribe hs = FaultyUnsubscribe e" for e
      using that by (simp add: cl1 all4)
    have b5: "cleanup cfg hs w = (w4\<lparr>w_cache_subscribed := False\<rparr>, Returns)"
      if "\<forall>k. sound_disposer (get_ref k w)" "unsubscribe hs = Unsubscribe"
      using that by (simp add: cl1 all4)
    have refs4: "get_ref k w4 = None" if sd: "\<forall>k. sound_disposer (get_ref k w)" for k
      using sd [rule_format, of FetchTap] sd [rule_format, of XHRTap] sd [rule_format, of WebSocketTap]
      by (cases k) (simp_all add: r4 r3 r2)
    have taps: "set (w_taps w4) \<subseteq> set (w_taps w3)" "set (w_taps w3) \<subseteq> set (w_taps w2)"
      by (simp_all add: w4_def w3_def after_dispose_taps)
    have removed: "n \<notin> snd ` set (w_taps w4)"
      if sd: "\<forall>k. sound_disposer (get_ref k w)" and r: "get_ref k w = Some (RemoveTap n)" for k n
    proof (cases k)
      case FetchTap
      then have "n \<notin> snd ` set (w_taps w2)"
        using r after_dispose_taps(2) [of FetchTap w1 n] by (simp add: w2_def)
      then show ?thesis using taps by blast
    next
      case XHRTap
      then have "n \<notin> snd ` set (w_taps w3)"
        using r after_dispose_taps(2) [of XHRTap w2 n] by (simp add: w3_def r2)
      then show ?thesis using taps by blast
    next
      case WebSocketTap
      then show ?thesis
        using r after_dispose_taps(2) [of WebSocketTap w3 n] by (simp add: w4_def r3 r2)
    qed
    have listeners4: "w_listeners w4 = listeners_after (subscriptions_of hs) (w_listeners w)"
      by (simp add: w4_def w3_def w2_def w1_def)
    have gone: "ev \<notin> set (w_listeners w4)" if "Some (Subscription ev) \<in> set (subscriptions_of hs)" for ev
      using that by (simp add: listeners4 listeners_after_removes)
    have props: "(\<forall>ev. Some (Subscription ev) \<in> set (subscriptions_of hs)
                   \<longrightarrow> ev \<notin> set (w_listeners (fst (cleanup cfg hs w))))
             \<and> (\<forall>k. get_ref k (fst (cleanup cfg hs w)) = None)
             \<and> (\<forall>k n. get_ref k w = Some (RemoveTap n)
                   \<longrightarrow> n \<notin> snd ` set (w_taps (fst (cleanup cfg hs w))))
             \<and> \<not> w_cache_subscribed (fst (cleanup cfg hs w))"
      if sd: "\<forall>k. sound_disposer (get_ref k w)" and us: "unsubscribe hs = Unsubscribe"
      using gone refs4 [OF sd] removed [OF sd] by (simp add: b5 [OF sd us])
    show ?thesis
    proof (intro conjI impI allI, goal_cases)
      case (1 pre ev e post)
      then show ?case using faulty_sub [of pre ev e post] by simp
    next
      case (2 e)
      then show ?case using b1 [of e] by (simp add: w1_def)
    next
      case (3 e)
      then show ?case using b2 [of e] by (simp add: w1_def w2_def)
    next
      case (4 e)
      then show ?case using b3 [of e] by (simp add: w1_def w2_def w3_def)
    next
      case (5 e)
      then show ?case using b4 [of e] by (simp add: w1_def w2_def w3_def w4_def)
    next
      case 6
      then show ?case using b5 by (simp add: w1_def w2_def w3_def w4_def)
    next
      case (7 ev)
      then show ?case using props by simp
    next
      case (8 k)
      then show ?case using props by simp
    next
      case (9 k n)
      then show ?case using props by simp
    next
      case 10
      then show ?case using props by simp
    qed
  qed
  show ?thesis
  proof (cases "\<forall>s \<in> set (subscriptions_of hs). sound_subscription s")
    case True
    then show ?thesis by (rule sound_part)
  next
    case False
    show ?thesis
    proof (intro conjI impI allI, goal_cases)
      case (1 pre ev e post)
      then show ?case using faulty_sub [of pre ev e post] by simp
    qed (simp_all add: False)
  qed
qed

theorem cleanup_in_one_pass_witness:
  "snd (cleanup cfg_A installed_handles world_monitored) = Returns
   \<and> w_listeners (fst (cleanup cfg_A installed_handles world_monitored)) = []
   \<and> w_taps (fst (cleanup cfg_A installed_handles world_monitored)) = []
   \<and> w_removeFetchInterceptorRef (fst (cleanup cfg_A installed_handles world_monitored)) = None
   \<and> w_removeXHRInterceptorRef (fst (cleanup cfg_A installed_handles world_monitored)) = None
   \<and> \<not> w_cache_subscribed (fst (cleanup cfg_A installed_handles world_monitored))
   \<and> cleanup cfg_A
        (installed_handles\<lparr>onlineManagerSubscription :=
           Some (FaultySubscription ''online-manager'' (NonError ''off failed''))\<rparr>)
        world_monitored
      = (subscriptions_off cfg_A
           [Some (Subscription ''query-action''), Some (Subscription ''request-initial-state'')]
           world_monitored,
         Throws (NonError ''off failed''))
   \<and> cleanup cfg_A installed_handles
        (world_monitored\<lparr>w_removeXHRInterceptorRef :=
           Some (FaultyDisposer (NonError ''disposer failed''))\<rparr>)
      = (after_dispose FetchTap
           (subscriptions_off cfg_A (subscriptions_of installed_handles)
              (world_monitored\<lparr>w_removeXHRInterceptorRef :=
                 Some (FaultyDisposer (NonError ''disposer failed''))\<rparr>)),
         Throws (NonError ''disposer failed''))
   \<and> snd (cleanup cfg_A (installed_handles\<lparr>unsubscribe :=
             FaultyUnsubscribe (NonError ''unsubscribe failed'')\<rparr>) world_monitored)
      = Throws (NonError ''unsubscribe failed'')
   \<and> w_taps (fst (cleanup cfg_A (installed_handles\<lparr>unsubscribe :=
             FaultyUnsubscribe (NonError ''unsubscribe failed'')\<rparr>) world_monitored)) = []
   \<and> w_cache_subscribed (fst (cleanup cfg_A (installed_handles\<lparr>unsubscribe :=
             FaultyUnsubscribe (NonError ''unsubscribe failed'')\<rparr>) world_monitored))"
  using cleanup_in_one_pass [of installed_handles cfg_A world_monitored]
  by (simp add: cleanup_def installed_handles_def world_monitored_def world_A_def
      dispose_kind_def add_log_def subscriptions_of_def subscriptions_off_def
      listeners_after_def after_dispose_def)

subsection \<open>Forced loading and its restoration\<close>



lemma query_setState_queries [simp]:
  "w_queries (query_setState cfg h upd w)
     = update_query h (\<lambda>q. q\<lparr>q_state := upd (q_state q)\<rparr>) (w_queries w)"
  "w_online (query_setState cfg h upd w) = w_online w"
  by (simp_all add: query_setState_def)

lemma query_cancel_queries [simp]:
  "w_queries (query_cancel_silent h w)
     = update_query h (\<lambda>q. q\<lparr>q_retryer := map_option cancel_retryer (q_retryer q)\<rparr>) (w_queries w)"
  "w_online (query_cancel_silent h w) = w_online w"
  by (simp_all add: query_cancel_silent_def)

lemma run_callbacks_fields [simp]:
  "w_queries (run_callbacks cs w) = w_queries w"
  "w_online (run_callbacks cs w) = w_online w"
  by (simp_all add: run_callbacks_def)

lemma update_query_absent: "cache_get h qs = None \<Longrightarrow> update_query h f qs = qs"
  by (induction qs) (simp_all add: cache_get_def update_query_def split: if_splits)

lemma query_fetch_queries [simp]:
  "w_queries (query_fetch cfg h opts w) = update_query h (fetch_query (w_online w) opts) (w_queries w)"
  "w_online (query_fetch cfg h opts w) = w_online w"
  by (simp_all add: query_fetch_def Let_def update_query_absent split: option.split)

lemma fetch_query_hash [simp]: "q_queryHash (fetch_query b opts q) = q_queryHash q"
  by (simp add: fetch_query_def Let_def)








end
